theory Spec2Isabelle
  imports Main
begin

section \<open>JSON values and the Python operations the scripts apply to them\<close>

text \<open>
  The scripts decode every response body with \<^verbatim>\<open>response.json()\<close> and then index,
  iterate and test the decoded value. A decoded value is a \<open>json\<close>; a Python dict is an
  association list read with \<open>map_of\<close>, and Python's \<^verbatim>\<open>None\<close> is \<open>JNull\<close>.
  Numbers are kept as integers: the scripts only ever test a number for truth.
\<close>

datatype json =
    JNull
  | JBool bool
  | JNum int
  | JStr string
  | JArr "json list"
  | JObj "(string \<times> json) list"

text \<open>The exceptions that the code can raise. The last three are subclasses of
  \<^verbatim>\<open>requests.exceptions.RequestException\<close> (a body that does not decode raises
  \<^verbatim>\<open>requests.exceptions.JSONDecodeError\<close>); the first four are not.\<close>

datatype pyexc =
    KeyError | IndexError | TypeError | AttributeError
  | ConnectionError | HTTPError | JSONDecodeError

definition is_RequestException :: "pyexc \<Rightarrow> bool" where
  "is_RequestException e = (e = ConnectionError \<or> e = HTTPError \<or> e = JSONDecodeError)"

text \<open>\<^verbatim>\<open>if x:\<close> and \<^verbatim>\<open>not x\<close> on a decoded value.\<close>

fun truthy :: "json \<Rightarrow> bool" where
  "truthy JNull = False"
| "truthy (JBool b) = b"
| "truthy (JNum n) = (n \<noteq> 0)"
| "truthy (JStr s) = (s \<noteq> [])"
| "truthy (JArr xs) = (xs \<noteq> [])"
| "truthy (JObj kvs) = (kvs \<noteq> [])"

text \<open>\<^verbatim>\<open>x[0]\<close>: the first element of a list, the first character of a string, a
  \<^verbatim>\<open>KeyError\<close> on a dict (its keys are strings), a \<^verbatim>\<open>TypeError\<close> otherwise.\<close>

fun py_index0 :: "json \<Rightarrow> pyexc + json" where
  "py_index0 (JArr []) = Inl IndexError"
| "py_index0 (JArr (x # xs)) = Inr x"
| "py_index0 (JStr []) = Inl IndexError"
| "py_index0 (JStr (c # cs)) = Inr (JStr [c])"
| "py_index0 (JObj kvs) = Inl KeyError"
| "py_index0 JNull = Inl TypeError"
| "py_index0 (JBool b) = Inl TypeError"
| "py_index0 (JNum n) = Inl TypeError"

text \<open>\<^verbatim>\<open>x["k"]\<close>: defined on a dict that has the key.\<close>

fun py_getitem :: "json \<Rightarrow> string \<Rightarrow> pyexc + json" where
  "py_getitem (JObj kvs) k = (case map_of kvs k of None \<Rightarrow> Inl KeyError | Some v \<Rightarrow> Inr v)"
| "py_getitem JNull k = Inl TypeError"
| "py_getitem (JBool b) k = Inl TypeError"
| "py_getitem (JNum n) k = Inl TypeError"
| "py_getitem (JStr s) k = Inl TypeError"
| "py_getitem (JArr xs) k = Inl TypeError"

text \<open>\<^verbatim>\<open>x.get("k", d)\<close>: only a dict has the method.\<close>

fun py_get :: "json \<Rightarrow> string \<Rightarrow> json \<Rightarrow> pyexc + json" where
  "py_get (JObj kvs) k d = (case map_of kvs k of None \<Rightarrow> Inr d | Some v \<Rightarrow> Inr v)"
| "py_get JNull k d = Inl AttributeError"
| "py_get (JBool b) k d = Inl AttributeError"
| "py_get (JNum n) k d = Inl AttributeError"
| "py_get (JStr s) k d = Inl AttributeError"
| "py_get (JArr xs) k d = Inl AttributeError"

text \<open>\<^verbatim>\<open>for x in v\<close>: the elements of a list, the keys of a dict, the characters of a
  string; anything else is not iterable.\<close>

fun py_iter :: "json \<Rightarrow> pyexc + json list" where
  "py_iter (JArr xs) = Inr xs"
| "py_iter (JObj kvs) = Inr (map (\<lambda>kv. JStr (fst kv)) kvs)"
| "py_iter (JStr s) = Inr (map (\<lambda>c. JStr [c]) s)"
| "py_iter JNull = Inl TypeError"
| "py_iter (JBool b) = Inl TypeError"
| "py_iter (JNum n) = Inl TypeError"

text \<open>\<^verbatim>\<open>d[k] = v\<close> on a dict: an existing key keeps its place, a new key is added.\<close>

fun dict_set :: "(string \<times> json) list \<Rightarrow> string \<Rightarrow> json \<Rightarrow> (string \<times> json) list" where
  "dict_set [] k v = [(k, v)]"
| "dict_set ((k', v') # kvs) k v =
     (if k' = k then (k, v) # kvs else (k', v') # dict_set kvs k v)"

definition bindE :: "'e + 'a \<Rightarrow> ('a \<Rightarrow> 'e + 'b) \<Rightarrow> 'e + 'b" where
  "bindE m f = (case m of Inl e \<Rightarrow> Inl e | Inr x \<Rightarrow> f x)"

section \<open>Requests, replies and the world a script runs in\<close>

text \<open>
  A URL is kept as its base followed by its path segments: \<open>S s\<close> is literal text (or a
  string variable), \<open>V v\<close> is the text that Python's formatting gives the decoded value
  \<open>v\<close> (an identifier taken from a response). A request carries its method, URL, query
  parameters, body and the bearer token of the \<^verbatim>\<open>Authorization\<close> header.
\<close>

datatype meth = GET | POST | PUT | DELETE

datatype seg = S string | V json

datatype payload = NoBody | Form "(string \<times> string) list" | Json json

datatype request =
  Request (meth: meth) (url: "seg list") (params: "(string \<times> string) list")
          (body: payload) (bearer: "json option")

text \<open>A reply is a network error (\<^verbatim>\<open>requests\<close> raises \<^verbatim>\<open>ConnectionError\<close>) or a response
  with its status code, its body decoded as JSON (\<open>None\<close> when it does not decode) and
  its \<^verbatim>\<open>Location\<close> header.\<close>

datatype reply = NetErr | Resp nat "json option" "string option"

text \<open>Console output: the status mark a line starts with, the text of the line (with the
  placeholders of interpolated status codes, identifiers and exception texts left as
  they are in the source), and the tenant identifiers interpolated into the line.
  Banner and heading lines carry no mark and no tenant identifier and are left out.\<close>

datatype mark = Success | Warning | Failure | Info | Plain

datatype line = Line (line_mark: mark) (line_text: string) (line_tenant: "string list")

text \<open>The world: the state of the remote service, the requests sent so far, each with
  the reply it got (oldest first), the lines printed so far, and the source of \<^verbatim>\<open>uuid4()\<close> values with the number
  of values drawn from it.\<close>

record 'r world =
  remote :: 'r
  calls :: "(request \<times> reply) list"
  printed :: "line list"
  uuids :: "nat \<Rightarrow> string"
  drawn :: nat

type_synonym 'r server = "'r \<Rightarrow> request \<Rightarrow> reply \<times> 'r"

definition http :: "'r server \<Rightarrow> request \<Rightarrow> 'r world \<Rightarrow> reply \<times> 'r world" where
  "http srv rq w =
     (case srv (remote w) rq of
        (rep, r') \<Rightarrow> (rep, w\<lparr>remote := r', calls := calls w @ [(rq, rep)]\<rparr>))"

definition say :: "mark \<Rightarrow> string \<Rightarrow> 'r world \<Rightarrow> 'r world" where
  "say m t w = w\<lparr>printed := printed w @ [Line m t []]\<rparr>"

definition say_tenant :: "mark \<Rightarrow> string \<Rightarrow> string list \<Rightarrow> 'r world \<Rightarrow> 'r world" where
  "say_tenant m t us w = w\<lparr>printed := printed w @ [Line m t us]\<rparr>"

definition uuid4 :: "'r world \<Rightarrow> string \<times> 'r world" where
  "uuid4 w = (uuids w (drawn w), w\<lparr>drawn := Suc (drawn w)\<rparr>)"

text \<open>\<^verbatim>\<open>response.raise_for_status()\<close> raises \<^verbatim>\<open>HTTPError\<close> for a status from 400 to 599.
  \<^verbatim>\<open>bool(response)\<close> is \<^verbatim>\<open>response.ok\<close>, which is true when \<^verbatim>\<open>raise_for_status\<close> does
  not raise.\<close>

definition http_error :: "nat \<Rightarrow> bool" where
  "http_error st = (400 \<le> st \<and> st < 600)"

definition response_bool :: "nat \<Rightarrow> bool" where
  "response_bool st = (\<not> http_error st)"

text \<open>\<^verbatim>\<open>response.raise_for_status()\<close> on the reply of a call inside a \<^verbatim>\<open>try\<close>.\<close>

definition checked :: "reply \<Rightarrow> pyexc + unit" where
  "checked r =
     (case r of
        NetErr \<Rightarrow> Inl ConnectionError
      | Resp st b l \<Rightarrow> if http_error st then Inl HTTPError else Inr ())"

text \<open>\<^verbatim>\<open>response.raise_for_status(); response.json()\<close>.\<close>

definition checked_json :: "reply \<Rightarrow> pyexc + json" where
  "checked_json r =
     (case r of
        NetErr \<Rightarrow> Inl ConnectionError
      | Resp st b l \<Rightarrow>
          if http_error st then Inl HTTPError
          else (case b of None \<Rightarrow> Inl JSONDecodeError | Some j \<Rightarrow> Inr j))"

section \<open>Configuration\<close>

text \<open>The environment variables read at the top of \<^verbatim>\<open>setup_keycloak_multitenant.py\<close> and
  \<^verbatim>\<open>fix_keycloak_roles.py\<close>, and the configuration they give. The two address variables
  have defaults; a missing or empty e-mail or password stops the script.\<close>

record env =
  KEYCLOAK_URL :: "string option"
  KEYCLOAK_REALM :: "string option"
  KEYCLOAK_ADMIN_EMAIL :: "string option"
  KEYCLOAK_ADMIN_PASSWORD :: "string option"

record config =
  base_url :: string
  realm :: string
  ADMIN_EMAIL :: string
  ADMIN_PASSWORD :: string

definition getenv :: "string option \<Rightarrow> string \<Rightarrow> string" where
  "getenv v d = (case v of None \<Rightarrow> d | Some s \<Rightarrow> s)"

definition load_config :: "env \<Rightarrow> config option" where
  "load_config e =
     (case (KEYCLOAK_ADMIN_EMAIL e, KEYCLOAK_ADMIN_PASSWORD e) of
        (Some em, Some pw) \<Rightarrow>
          if em = [] \<or> pw = [] then None
          else Some \<lparr>base_url = getenv (KEYCLOAK_URL e) ''https://auth.rodolfodebonis.com.br'',
                     realm = getenv (KEYCLOAK_REALM e) ''spooliq'',
                     ADMIN_EMAIL = em, ADMIN_PASSWORD = pw\<rparr>
      | _ \<Rightarrow> None)"

definition CLIENT_ID :: string where
  "CLIENT_ID = ''spooliq''"

definition token_url :: "config \<Rightarrow> seg list" where
  "token_url cfg =
     [S (base_url cfg), S ''realms'', S ''master'', S ''protocol'', S ''openid-connect'', S ''token'']"

definition token_data :: "config \<Rightarrow> payload" where
  "token_data cfg =
     Form [(''client_id'', ''admin-cli''), (''username'', ADMIN_EMAIL cfg),
           (''password'', ADMIN_PASSWORD cfg), (''grant_type'', ''password'')]"

definition admin_url :: "config \<Rightarrow> seg list \<Rightarrow> seg list" where
  "admin_url cfg p = S (base_url cfg) # S ''admin'' # S ''realms'' # S (realm cfg) # p"

section \<open>setup_keycloak_multitenant.py: class KeycloakSetup\<close>

text \<open>The fields of \<^verbatim>\<open>self\<close> that change or are read: the token (which the session then
  sends with every request) and the organization identifier.\<close>

record keycloak_setup =
  token :: "json option"
  organization_uuid :: string

definition KeycloakSetup_init :: "'r world \<Rightarrow> keycloak_setup \<times> 'r world" where
  "KeycloakSetup_init w =
     (case uuid4 w of (u, w') \<Rightarrow> (\<lparr>token = None, organization_uuid = u\<rparr>, w'))"

definition session :: "'r server \<Rightarrow> keycloak_setup \<Rightarrow> meth \<Rightarrow> seg list \<Rightarrow> (string \<times> string) list \<Rightarrow>
    payload \<Rightarrow> 'r world \<Rightarrow> reply \<times> 'r world" where
  "session srv self m u ps b w = http srv (Request m u ps b (token self)) w"

text \<open>\<^verbatim>\<open>get_admin_token\<close>: a \<^verbatim>\<open>RequestException\<close> is caught and gives \<open>False\<close>; a body
  without \<^verbatim>\<open>access_token\<close> raises out of the method.\<close>

definition get_admin_token ::
    "'r server \<Rightarrow> config \<Rightarrow> keycloak_setup \<Rightarrow> 'r world \<Rightarrow> (pyexc + bool) \<times> keycloak_setup \<times> 'r world" where
  "get_admin_token srv cfg self w0 =
     (case session srv self POST (token_url cfg) [] (token_data cfg) w0 of
        (r, w1) \<Rightarrow>
          (case bindE (checked_json r) (\<lambda>j. py_getitem j ''access_token'') of
             Inr t \<Rightarrow> (Inr True, self\<lparr>token := Some t\<rparr>, say Success ''Authentication successful'' w1)
           | Inl e \<Rightarrow>
               if is_RequestException e
               then (Inr False, self, say Failure ''Authentication failed: {e}'' w1)
               else (Inl e, self, w1)))"

definition client_config :: json where
  "client_config = JObj
     [(''clientId'', JStr CLIENT_ID),
      (''name'', JStr ''Spooliq Application''),
      (''protocol'', JStr ''openid-connect''),
      (''publicClient'', JBool True),
      (''standardFlowEnabled'', JBool True),
      (''directAccessGrantsEnabled'', JBool True),
      (''redirectUris'', JArr [JStr ''http://localhost:8000/*'']),
      (''webOrigins'', JArr [JStr ''http://localhost:8000'']),
      (''enabled'', JBool True)]"

text \<open>\<^verbatim>\<open>clients[0]["id"]\<close>\<close>

definition first_id :: "json \<Rightarrow> pyexc + json" where
  "first_id xs = bindE (py_index0 xs) (\<lambda>x. py_getitem x ''id'')"

text \<open>\<^verbatim>\<open>create_client\<close>, second part (lines 91 to 119): create the client and read its
  identifier back.\<close>

definition create_client_new :: "'r server \<Rightarrow> config \<Rightarrow> keycloak_setup \<Rightarrow> 'r world \<Rightarrow> (pyexc + json) \<times> 'r world" where
  "create_client_new srv cfg self w0 =
     (case session srv self POST (admin_url cfg [S ''clients'']) [] (Json client_config) w0 of
        (r1, w1) \<Rightarrow>
          (case checked r1 of
             Inl e \<Rightarrow> (Inr JNull, say Failure ''Failed to create client: {e}'' w1)
           | Inr u \<Rightarrow>
               (case session srv self GET (admin_url cfg [S ''clients''])
                       [(''clientId'', CLIENT_ID)] NoBody w1 of
                  (r2, w2) \<Rightarrow>
                    (case bindE (checked_json r2) first_id of
                       Inr client_uuid \<Rightarrow>
                         (Inr client_uuid,
                          say Success ''Client {CLIENT_ID} created successfully (ID: {client_uuid})'' w2)
                     | Inl e \<Rightarrow>
                         if is_RequestException e
                         then (Inr JNull, say Failure ''Failed to create client: {e}'' w2)
                         else (Inl e, w2)))))"

text \<open>\<^verbatim>\<open>create_client\<close> (lines 73 to 119): look the client up; return the identifier of the
  first match; otherwise (no match, or a \<^verbatim>\<open>RequestException\<close> while looking) create it.\<close>

definition create_client :: "'r server \<Rightarrow> config \<Rightarrow> keycloak_setup \<Rightarrow> 'r world \<Rightarrow> (pyexc + json) \<times> 'r world" where
  "create_client srv cfg self w0 =
     (case session srv self GET (admin_url cfg [S ''clients''])
             [(''clientId'', CLIENT_ID)] NoBody w0 of
        (r1, w1) \<Rightarrow>
          (case bindE (checked_json r1)
                  (\<lambda>clients. if truthy clients then bindE (first_id clients) (\<lambda>i. Inr (Some i))
                             else Inr None) of
             Inr (Some client_uuid) \<Rightarrow>
               (Inr client_uuid,
                say Success ''Client {CLIENT_ID} already exists (ID: {client_uuid})'' w1)
           | Inr None \<Rightarrow> create_client_new srv cfg self w1
           | Inl e \<Rightarrow>
               if is_RequestException e
               then create_client_new srv cfg self (say Warning ''Error checking client: {e}'' w1)
               else (Inl e, w1)))"

definition role_config :: "string \<Rightarrow> json" where
  "role_config role_name = JObj
     [(''name'', JStr role_name),
      (''description'', JStr (role_name @ '' role for Spooliq multi-tenant system''))]"

text \<open>The body of the loop of \<^verbatim>\<open>create_roles\<close> (lines 129 to 151). The lookup sits in a
  \<^verbatim>\<open>try\<close> with a bare \<^verbatim>\<open>except\<close>; a status other than 200 or a network error leads to
  the creation request.\<close>

definition create_role :: "'r server \<Rightarrow> config \<Rightarrow> keycloak_setup \<Rightarrow> string \<Rightarrow> bool \<times> 'r world \<Rightarrow> bool \<times> 'r world" where
  "create_role srv cfg self role_name acc =
     (case acc of (success, w0) \<Rightarrow>
       (case session srv self GET (admin_url cfg [S ''roles'', S role_name]) [] NoBody w0 of
          (r1, w1) \<Rightarrow>
            if (case r1 of NetErr \<Rightarrow> False | Resp st b l \<Rightarrow> st = 200)
            then (success, say Success (''Role '' @ role_name @ '' already exists'') w1)
            else
              (case session srv self POST (admin_url cfg [S ''roles'']) []
                      (Json (role_config role_name)) w1 of
                 (r2, w2) \<Rightarrow>
                   (case checked r2 of
                      Inr u \<Rightarrow> (success, say Success (''Role '' @ role_name @ '' created'') w2)
                    | Inl e \<Rightarrow>
                        (False, say Failure (''Failed to create role '' @ role_name @ '': {e}'') w2)))))"

definition setup_roles :: "string list" where
  "setup_roles = [''PlatformAdmin'', ''OrgAdmin'', ''User'']"

definition create_roles :: "'r server \<Rightarrow> config \<Rightarrow> keycloak_setup \<Rightarrow> 'r world \<Rightarrow> bool \<times> 'r world" where
  "create_roles srv cfg self w0 =
     foldl (\<lambda>acc role_name. create_role srv cfg self role_name acc) (True, w0) setup_roles"

definition scope_config :: json where
  "scope_config = JObj
     [(''name'', JStr ''organization''),
      (''description'', JStr ''Organization multi-tenancy scope''),
      (''protocol'', JStr ''openid-connect''),
      (''attributes'', JObj [(''include.in.token.scope'', JStr ''true''),
                             (''display.on.consent.screen'', JStr ''false'')])]"

text \<open>The loop \<^verbatim>\<open>for scope in ...: if scope["name"] == "organization": return scope["id"]\<close>:
  the identifier of the first scope of that name, \<open>None\<close> when the loop ends without one,
  and the exception of the first element that cannot be read.\<close>

fun find_scope :: "json list \<Rightarrow> pyexc + json option" where
  "find_scope [] = Inr None"
| "find_scope (scope # scopes) =
     (case py_getitem scope ''name'' of
        Inl e \<Rightarrow> Inl e
      | Inr n \<Rightarrow>
          if n = JStr ''organization''
          then (case py_getitem scope ''id'' of Inl e \<Rightarrow> Inl e | Inr i \<Rightarrow> Inr (Some i))
          else find_scope scopes)"

definition lookup_scope :: "reply \<Rightarrow> pyexc + json option" where
  "lookup_scope r = bindE (checked_json r) (\<lambda>j. bindE (py_iter j) find_scope)"

text \<open>\<^verbatim>\<open>create_client_scope\<close>, second part (lines 173 to 198). When the scope is not in
  the list read back, the method ends without a \<^verbatim>\<open>return\<close> and gives \<^verbatim>\<open>None\<close>.\<close>

definition create_client_scope_new :: "'r server \<Rightarrow> config \<Rightarrow> keycloak_setup \<Rightarrow> 'r world \<Rightarrow> (pyexc + json) \<times> 'r world" where
  "create_client_scope_new srv cfg self w0 =
     (case session srv self POST (admin_url cfg [S ''client-scopes'']) [] (Json scope_config) w0 of
        (r1, w1) \<Rightarrow>
          (case checked r1 of
             Inl e \<Rightarrow> (Inr JNull, say Failure ''Failed to create scope: {e}'' w1)
           | Inr u \<Rightarrow>
               (case session srv self GET (admin_url cfg [S ''client-scopes'']) [] NoBody w1 of
                  (r2, w2) \<Rightarrow>
                    (case lookup_scope r2 of
                       Inr (Some scope_id) \<Rightarrow>
                         (Inr scope_id, say Success ''Scope organization created (ID: {scope_id})'' w2)
                     | Inr None \<Rightarrow> (Inr JNull, w2)
                     | Inl e \<Rightarrow>
                         if is_RequestException e
                         then (Inr JNull, say Failure ''Failed to create scope: {e}'' w2)
                         else (Inl e, w2)))))"

text \<open>\<^verbatim>\<open>create_client_scope\<close> (lines 155 to 198). The lookup sits in a \<^verbatim>\<open>try\<close> with a
  bare \<^verbatim>\<open>except\<close>: every exception leads to the creation request.\<close>

definition create_client_scope :: "'r server \<Rightarrow> config \<Rightarrow> keycloak_setup \<Rightarrow> 'r world \<Rightarrow> (pyexc + json) \<times> 'r world" where
  "create_client_scope srv cfg self w0 =
     (case session srv self GET (admin_url cfg [S ''client-scopes'']) [] NoBody w0 of
        (r1, w1) \<Rightarrow>
          (case lookup_scope r1 of
             Inr (Some scope_id) \<Rightarrow>
               (Inr scope_id, say Success ''Scope organization already exists (ID: {scope_id})'' w1)
           | Inr None \<Rightarrow> create_client_scope_new srv cfg self w1
           | Inl e \<Rightarrow> create_client_scope_new srv cfg self w1))"

definition mapper_config :: json where
  "mapper_config = JObj
     [(''name'', JStr ''organization-id-mapper''),
      (''protocol'', JStr ''openid-connect''),
      (''protocolMapper'', JStr ''oidc-usermodel-attribute-mapper''),
      (''config'', JObj [(''user.attribute'', JStr ''organization_id''),
                         (''claim.name'', JStr ''organization_id''),
                         (''jsonType.label'', JStr ''String''),
                         (''id.token.claim'', JStr ''true''),
                         (''access.token.claim'', JStr ''true''),
                         (''userinfo.token.claim'', JStr ''true'')])]"

text \<open>The loop \<^verbatim>\<open>for mapper in mappers: if mapper.get("name") == ...: return True\<close>.\<close>

fun find_mapper :: "json list \<Rightarrow> pyexc + bool" where
  "find_mapper [] = Inr False"
| "find_mapper (mapper # mappers) =
     (case py_get mapper ''name'' JNull of
        Inl e \<Rightarrow> Inl e
      | Inr n \<Rightarrow> if n = JStr ''organization-id-mapper'' then Inr True else find_mapper mappers)"

definition lookup_mapper :: "reply \<Rightarrow> pyexc + bool" where
  "lookup_mapper r = bindE (checked_json r) (\<lambda>j. bindE (py_iter j) find_mapper)"

definition mappers_url :: "config \<Rightarrow> json \<Rightarrow> seg list" where
  "mappers_url cfg scope_id =
     admin_url cfg [S ''client-scopes'', V scope_id, S ''protocol-mappers'', S ''models'']"

text \<open>\<^verbatim>\<open>create_protocol_mapper\<close> (lines 200 to 242). In the handler of the creation
  request, \<^verbatim>\<open>e.response and e.response.status_code == 409\<close> tests the truth of the response
  object first, which is \<open>response_bool\<close> of its status; a network error has no response.\<close>

definition create_protocol_mapper :: "'r server \<Rightarrow> config \<Rightarrow> keycloak_setup \<Rightarrow> json \<Rightarrow> 'r world \<Rightarrow> bool \<times> 'r world" where
  "create_protocol_mapper srv cfg self scope_id w0 =
     (case session srv self GET (mappers_url cfg scope_id) [] NoBody w0 of
        (r1, w1) \<Rightarrow>
          if lookup_mapper r1 = Inr True
          then (True, say Success ''Protocol mapper already exists'' w1)
          else
            (case session srv self POST (mappers_url cfg scope_id) [] (Json mapper_config) w1 of
               (r2, w2) \<Rightarrow>
                 (case r2 of
                    NetErr \<Rightarrow> (False, say Failure ''Failed to create mapper: {e}'' w2)
                  | Resp st b l \<Rightarrow>
                      if \<not> http_error st then (True, say Success ''Protocol mapper created'' w2)
                      else if response_bool st \<and> st = 409
                      then (True, say Success ''Protocol mapper already exists'' w2)
                      else (False, say Failure ''Failed to create mapper: {e}'' w2))))"

definition assign_scope_to_client ::
    "'r server \<Rightarrow> config \<Rightarrow> keycloak_setup \<Rightarrow> json \<Rightarrow> json \<Rightarrow> 'r world \<Rightarrow> bool \<times> 'r world" where
  "assign_scope_to_client srv cfg self client_uuid scope_id w0 =
     (case session srv self PUT
             (admin_url cfg [S ''clients'', V client_uuid, S ''default-client-scopes'', V scope_id])
             [] NoBody w0 of
        (r, w1) \<Rightarrow>
          (case checked r of
             Inr u \<Rightarrow> (True, say Success ''Scope assigned to client as default'' w1)
           | Inl e \<Rightarrow> (False, say Failure ''Failed to assign scope: {e}'' w1)))"

text \<open>\<^verbatim>\<open>find_user_by_email\<close> (lines 259 to 279).\<close>

definition find_user_by_email ::
    "'r server \<Rightarrow> config \<Rightarrow> keycloak_setup \<Rightarrow> string \<Rightarrow> 'r world \<Rightarrow> (pyexc + json) \<times> 'r world" where
  "find_user_by_email srv cfg self email w0 =
     (case session srv self GET (admin_url cfg [S ''users''])
             [(''email'', email), (''exact'', ''true'')] NoBody w0 of
        (r, w1) \<Rightarrow>
          (case bindE (checked_json r)
                  (\<lambda>users. if truthy users then bindE (first_id users) (\<lambda>i. Inr (Some i))
                            else Inr None) of
             Inr (Some user_id) \<Rightarrow> (Inr user_id, say Success ''User found (ID: {user_id})'' w1)
           | Inr None \<Rightarrow> (Inr JNull, say Failure (''User '' @ email @ '' not found'') w1)
           | Inl e \<Rightarrow>
               if is_RequestException e
               then (Inr JNull, say Failure ''Error finding user: {e}'' w1)
               else (Inl e, w1)))"

text \<open>Lines 294 to 297: put an empty \<^verbatim>\<open>attributes\<close> dict into the user when it has none,
  then store the organization identifier, as a one-element list, under
  \<^verbatim>\<open>organization_id\<close> in it. Neither assignment is possible unless the user and its
  \<^verbatim>\<open>attributes\<close> are dicts.\<close>

definition with_organization_id :: "string \<Rightarrow> json \<Rightarrow> pyexc + json" where
  "with_organization_id u user_data =
     (case user_data of
        JObj d \<Rightarrow>
          (case (case map_of d ''attributes'' of None \<Rightarrow> JObj [] | Some a \<Rightarrow> a) of
             JObj a \<Rightarrow>
               Inr (JObj (dict_set d ''attributes''
                            (JObj (dict_set a ''organization_id'' (JArr [JStr u])))))
           | _ \<Rightarrow> Inl TypeError)
      | _ \<Rightarrow> Inl TypeError)"

definition set_user_attribute ::
    "'r server \<Rightarrow> config \<Rightarrow> keycloak_setup \<Rightarrow> json \<Rightarrow> 'r world \<Rightarrow> (pyexc + bool) \<times> 'r world" where
  "set_user_attribute srv cfg self user_id w =
     (let w0 = say_tenant Plain ''Setting organization_id attribute to: {self.organization_uuid}''
                 [organization_uuid self] w in
      case session srv self GET (admin_url cfg [S ''users'', V user_id]) [] NoBody w0 of
        (r1, w1) \<Rightarrow>
          (case bindE (checked_json r1) (with_organization_id (organization_uuid self)) of
             Inl e \<Rightarrow>
               if is_RequestException e
               then (Inr False, say Failure ''Failed to set attribute: {e}'' w1)
               else (Inl e, w1)
           | Inr user_data \<Rightarrow>
               (case session srv self PUT (admin_url cfg [S ''users'', V user_id]) []
                       (Json user_data) w1 of
                  (r2, w2) \<Rightarrow>
                    (case checked r2 of
                       Inr u \<Rightarrow> (Inr True, say Success ''organization_id attribute set'' w2)
                     | Inl e \<Rightarrow> (Inr False, say Failure ''Failed to set attribute: {e}'' w2)))))"

text \<open>Lines 324 to 332: for each wanted name, the first role of that name in the list
  of all roles, kept as its \<^verbatim>\<open>id\<close> and \<^verbatim>\<open>name\<close>.\<close>

fun find_role :: "string \<Rightarrow> json list \<Rightarrow> pyexc + json option" where
  "find_role role_name [] = Inr None"
| "find_role role_name (role # all_roles) =
     (case py_getitem role ''name'' of
        Inl e \<Rightarrow> Inl e
      | Inr n \<Rightarrow>
          if n = JStr role_name
          then (case py_getitem role ''id'' of
                  Inl e \<Rightarrow> Inl e
                | Inr i \<Rightarrow> Inr (Some (JObj [(''id'', i), (''name'', n)])))
          else find_role role_name all_roles)"

fun role_objects :: "string list \<Rightarrow> json list \<Rightarrow> pyexc + json list" where
  "role_objects [] all_roles = Inr []"
| "role_objects (role_name # names) all_roles =
     (case find_role role_name all_roles of
        Inl e \<Rightarrow> Inl e
      | Inr found \<Rightarrow>
          (case role_objects names all_roles of
             Inl e \<Rightarrow> Inl e
           | Inr objs \<Rightarrow> Inr ((case found of None \<Rightarrow> [] | Some obj \<Rightarrow> [obj]) @ objs)))"

definition assign_roles_to_user ::
    "'r server \<Rightarrow> config \<Rightarrow> keycloak_setup \<Rightarrow> json \<Rightarrow> 'r world \<Rightarrow> (pyexc + bool) \<times> 'r world" where
  "assign_roles_to_user srv cfg self user_id w0 =
     (case session srv self GET (admin_url cfg [S ''roles'']) [] NoBody w0 of
        (r1, w1) \<Rightarrow>
          (case bindE (checked_json r1) (\<lambda>j. bindE (py_iter j) (role_objects setup_roles)) of
             Inl e \<Rightarrow>
               if is_RequestException e
               then (Inr False, say Failure ''Failed to assign roles: {e}'' w1)
               else (Inl e, w1)
           | Inr objs \<Rightarrow>
               if length objs \<noteq> length setup_roles
               then (Inr False, say Failure ''Not all roles found. Found {len(role_objects)} of {len(roles_to_assign)}'' w1)
               else
                 (case session srv self POST
                         (admin_url cfg [S ''users'', V user_id, S ''role-mappings'', S ''realm''])
                         [] (Json (JArr objs)) w1 of
                    (r2, w2) \<Rightarrow>
                      (case checked r2 of
                         Inr u \<Rightarrow> (Inr True, say Success ''Roles assigned: PlatformAdmin, OrgAdmin, User'' w2)
                       | Inl e \<Rightarrow> (Inr False, say Failure ''Failed to assign roles: {e}'' w2)))))"

text \<open>The lines of the closing summary of \<^verbatim>\<open>run\<close> that carry a status mark or the
  organization identifier (lines 396 to 420).\<close>

definition run_summary :: "keycloak_setup \<Rightarrow> 'r world \<Rightarrow> 'r world" where
  "run_summary self w =
     say_tenant Plain ''        {self.organization_uuid},'' [organization_uuid self]
       (say_tenant Plain ''   Organization UUID: {self.organization_uuid}'' [organization_uuid self]
          (say Success ''Setup completed successfully!'' w))"

text \<open>\<^verbatim>\<open>run\<close> (lines 351 to 422): the nine steps in order, each followed by its
  \<^verbatim>\<open>if not ...: return False\<close>. An exception that a step lets through ends \<^verbatim>\<open>run\<close>.\<close>

definition run :: "'r server \<Rightarrow> config \<Rightarrow> keycloak_setup \<Rightarrow> 'r world \<Rightarrow> (pyexc + bool) \<times> 'r world" where
  "run srv cfg self0 w0 =
     (case get_admin_token srv cfg self0 w0 of
        (Inl e, self, w1) \<Rightarrow> (Inl e, w1)
      | (Inr authenticated, self, w1) \<Rightarrow>
          if \<not> authenticated then (Inr False, w1)
          else
     (case create_client srv cfg self w1 of
        (Inl e, w2) \<Rightarrow> (Inl e, w2)
      | (Inr client_uuid, w2) \<Rightarrow>
          if \<not> truthy client_uuid then (Inr False, w2)
          else
     (case create_roles srv cfg self w2 of
        (roles_ok, w3) \<Rightarrow>
          if \<not> roles_ok then (Inr False, w3)
          else
     (case create_client_scope srv cfg self w3 of
        (Inl e, w4) \<Rightarrow> (Inl e, w4)
      | (Inr scope_id, w4) \<Rightarrow>
          if \<not> truthy scope_id then (Inr False, w4)
          else
     (case create_protocol_mapper srv cfg self scope_id w4 of
        (mapper_ok, w5) \<Rightarrow>
          if \<not> mapper_ok then (Inr False, w5)
          else
     (case assign_scope_to_client srv cfg self client_uuid scope_id w5 of
        (assigned, w6) \<Rightarrow>
          if \<not> assigned then (Inr False, w6)
          else
     (case find_user_by_email srv cfg self (ADMIN_EMAIL cfg) w6 of
        (Inl e, w7) \<Rightarrow> (Inl e, w7)
      | (Inr user_id, w7) \<Rightarrow>
          if \<not> truthy user_id then (Inr False, w7)
          else
     (case set_user_attribute srv cfg self user_id w7 of
        (Inl e, w8) \<Rightarrow> (Inl e, w8)
      | (Inr attribute_ok, w8) \<Rightarrow>
          if \<not> attribute_ok then (Inr False, w8)
          else
     (case assign_roles_to_user srv cfg self user_id w8 of
        (Inl e, w9) \<Rightarrow> (Inl e, w9)
      | (Inr roles_assigned, w9) \<Rightarrow>
          if \<not> roles_assigned then (Inr False, w9)
          else (Inr True, run_summary self w9))))))))))"

text \<open>\<^verbatim>\<open>main\<close> (lines 425 to 439): build the object, run it, and leave with status 0 when
  \<^verbatim>\<open>run\<close> gave \<^verbatim>\<open>True\<close> and 1 otherwise, also when an exception came out of \<^verbatim>\<open>run\<close>.\<close>

definition main :: "'r server \<Rightarrow> config \<Rightarrow> 'r world \<Rightarrow> nat \<times> 'r world" where
  "main srv cfg w =
     (case KeycloakSetup_init w of
        (self, w0) \<Rightarrow>
          (case run srv cfg self w0 of
             (Inr success, w1) \<Rightarrow> (if success then 0 else 1, w1)
           | (Inl e, w1) \<Rightarrow> (1, say Failure ''Unexpected error: {e}'' w1)))"

text \<open>The script as a whole: the check of the environment (lines 19 to 33), then
  \<^verbatim>\<open>main\<close>.\<close>

definition setup_keycloak_multitenant :: "'r server \<Rightarrow> env \<Rightarrow> 'r world \<Rightarrow> nat \<times> 'r world" where
  "setup_keycloak_multitenant srv e w =
     (case load_config e of
        None \<Rightarrow> (1, say Failure ''Error: KEYCLOAK_ADMIN_EMAIL and KEYCLOAK_ADMIN_PASSWORD environment variables are required'' w)
      | Some cfg \<Rightarrow> main srv cfg w)"

section \<open>setup_keycloak_groups.py\<close>

text \<open>
  The script is one sequence of statements at module level. It has no \<^verbatim>\<open>try\<close> after the
  authentication, so a network error or a value of the wrong shape ends it with an
  uncaught exception, and the interpreter then leaves with status 1. The address, realm,
  e-mail and password of lines 15 to 18 are literals in the source; they are taken here
  from the parameter \<open>cfg\<close>.
\<close>

datatype stop = Exit nat | Uncaught pyexc

fun exit_status :: "stop \<Rightarrow> nat" where
  "exit_status (Exit n) = n"
| "exit_status (Uncaught e) = 1"

text \<open>\<^verbatim>\<open>response.json()\<close> with no \<^verbatim>\<open>raise_for_status()\<close> before it.\<close>

definition json_of :: "reply \<Rightarrow> pyexc + json" where
  "json_of r =
     (case r of
        NetErr \<Rightarrow> Inl ConnectionError
      | Resp st b l \<Rightarrow> (case b of None \<Rightarrow> Inl JSONDecodeError | Some j \<Rightarrow> Inr j))"

text \<open>\<^verbatim>\<open>requests.get(url, headers=headers, ...)\<close> and its siblings, with the bearer token
  of \<^verbatim>\<open>headers\<close>.\<close>

definition requests_call :: "'r server \<Rightarrow> json \<Rightarrow> meth \<Rightarrow> seg list \<Rightarrow> (string \<times> string) list \<Rightarrow>
    payload \<Rightarrow> 'r world \<Rightarrow> reply \<times> 'r world" where
  "requests_call srv admin_token m u ps b w = http srv (Request m u ps b (Some admin_token)) w"

text \<open>Step 1 (lines 35 to 51): every exception of the token request ends the script with
  status 1.\<close>

definition script_authenticate :: "'r server \<Rightarrow> config \<Rightarrow> 'r world \<Rightarrow> (stop + json) \<times> 'r world" where
  "script_authenticate srv cfg w0 =
     (case http srv (Request POST (token_url cfg) [] (token_data cfg) None) w0 of
        (r, w1) \<Rightarrow>
          (case bindE (checked_json r) (\<lambda>j. py_getitem j ''access_token'') of
             Inr admin_token \<Rightarrow> (Inr admin_token, say Success ''Authentication successful'' w1)
           | Inl e \<Rightarrow> (Inl (Exit 1), say Failure ''Authentication failed: {e}'' w1)))"

definition client_data :: json where
  "client_data = JObj
     [(''clientId'', JStr ''spooliq''),
      (''name'', JStr ''Spooliq Application''),
      (''description'', JStr ''Main Spooliq application client''),
      (''enabled'', JBool True),
      (''protocol'', JStr ''openid-connect''),
      (''publicClient'', JBool True),
      (''standardFlowEnabled'', JBool True),
      (''directAccessGrantsEnabled'', JBool True),
      (''serviceAccountsEnabled'', JBool False),
      (''redirectUris'', JArr [JStr ''http://localhost:8000/*'', JStr ''https://*.rodolfodebonis.com.br/*'']),
      (''webOrigins'', JArr [JStr ''http://localhost:8000'', JStr ''https://*.rodolfodebonis.com.br'']),
      (''attributes'', JObj [(''access.token.lifespan'', JStr ''3600'')])]"

text \<open>Step 2 (lines 61 to 98).\<close>

definition groups_client :: "'r server \<Rightarrow> config \<Rightarrow> json \<Rightarrow> 'r world \<Rightarrow> (stop + json) \<times> 'r world" where
  "groups_client srv cfg admin_token w0 =
     (case requests_call srv admin_token GET (admin_url cfg [S ''clients''])
             [(''clientId'', ''spooliq'')] NoBody w0 of
        (r1, w1) \<Rightarrow>
          (case json_of r1 of
             Inl e \<Rightarrow> (Inl (Uncaught e), w1)
           | Inr existing_clients \<Rightarrow>
               if truthy existing_clients
               then (case first_id existing_clients of
                       Inl e \<Rightarrow> (Inl (Uncaught e), w1)
                     | Inr client_id \<Rightarrow>
                         (Inr client_id, say Success ''Client spooliq already exists (ID: {client_id})'' w1))
               else
                 (case requests_call srv admin_token POST (admin_url cfg [S ''clients'']) []
                         (Json client_data) w1 of
                    (NetErr, w2) \<Rightarrow> (Inl (Uncaught ConnectionError), w2)
                  | (Resp st b l, w2) \<Rightarrow>
                      if st = 201
                      then (case requests_call srv admin_token GET (admin_url cfg [S ''clients''])
                                   [(''clientId'', ''spooliq'')] NoBody w2 of
                              (r3, w3) \<Rightarrow>
                                (case bindE (json_of r3) first_id of
                                   Inl e \<Rightarrow> (Inl (Uncaught e), w3)
                                 | Inr client_id \<Rightarrow>
                                     (Inr client_id, say Success ''Client spooliq created (ID: {client_id})'' w3)))
                      else (Inl (Exit 1), say Failure ''Failed to create client: {response.status_code}'' w2))))"

definition groups_roles :: "string list" where
  "groups_roles = [''PlatformAdmin'', ''OrgAdmin'', ''Owner'', ''User'']"

definition role_data :: "string \<Rightarrow> json" where
  "role_data role = JObj
     [(''name'', JStr role),
      (''description'', JStr (role @ '' role for Spooliq SaaS platform''))]"

text \<open>The body of the loop of step 3 (lines 107 to 121): a creation that is not answered
  with 201 prints a warning and the loop goes on.\<close>

definition groups_role :: "'r server \<Rightarrow> config \<Rightarrow> json \<Rightarrow> string \<Rightarrow> 'r world \<Rightarrow> (stop + unit) \<times> 'r world" where
  "groups_role srv cfg admin_token role w0 =
     (case requests_call srv admin_token GET (admin_url cfg [S ''roles'', S role]) [] NoBody w0 of
        (NetErr, w1) \<Rightarrow> (Inl (Uncaught ConnectionError), w1)
      | (Resp st b l, w1) \<Rightarrow>
          if st = 200 then (Inr (), say Success (''Role '' @ role @ '' already exists'') w1)
          else
            (case requests_call srv admin_token POST (admin_url cfg [S ''roles'']) []
                    (Json (role_data role)) w1 of
               (NetErr, w2) \<Rightarrow> (Inl (Uncaught ConnectionError), w2)
             | (Resp st2 b2 l2, w2) \<Rightarrow>
                 if st2 = 201 then (Inr (), say Success (''Role '' @ role @ '' created'') w2)
                 else (Inr (), say Warning (''Failed to create role '' @ role @ '': {response.status_code}'') w2)))"

fun groups_create_roles :: "'r server \<Rightarrow> config \<Rightarrow> json \<Rightarrow> string list \<Rightarrow> 'r world \<Rightarrow> (stop + unit) \<times> 'r world" where
  "groups_create_roles srv cfg admin_token [] w = (Inr (), w)"
| "groups_create_roles srv cfg admin_token (role # roles) w =
     (case groups_role srv cfg admin_token role w of
        (Inl e, w') \<Rightarrow> (Inl e, w')
      | (Inr u, w') \<Rightarrow> groups_create_roles srv cfg admin_token roles w')"

definition scope_data :: json where
  "scope_data = JObj
     [(''name'', JStr ''organization''),
      (''description'', JStr ''Organization/Company membership via Groups''),
      (''protocol'', JStr ''openid-connect''),
      (''attributes'', JObj [(''include.in.token.scope'', JStr ''true''),
                             (''display.on.consent.screen'', JStr ''false'')])]"

text \<open>\<^verbatim>\<open>[s for s in ... if s["name"] == "organization"]\<close> and
  \<^verbatim>\<open>[s["id"] for s in ... if s["name"] == "organization"]\<close>: a comprehension reads every
  element, and raises at the first one that cannot be read.\<close>

fun scopes_named :: "json list \<Rightarrow> pyexc + json list" where
  "scopes_named [] = Inr []"
| "scopes_named (s # ss) =
     (case py_getitem s ''name'' of
        Inl e \<Rightarrow> Inl e
      | Inr n \<Rightarrow>
          (case scopes_named ss of
             Inl e \<Rightarrow> Inl e
           | Inr rest \<Rightarrow> Inr (if n = JStr ''organization'' then s # rest else rest)))"

fun scope_ids_named :: "json list \<Rightarrow> pyexc + json list" where
  "scope_ids_named [] = Inr []"
| "scope_ids_named (s # ss) =
     (case py_getitem s ''name'' of
        Inl e \<Rightarrow> Inl e
      | Inr n \<Rightarrow>
          if n = JStr ''organization''
          then (case py_getitem s ''id'' of
                  Inl e \<Rightarrow> Inl e
                | Inr i \<Rightarrow> (case scope_ids_named ss of Inl e \<Rightarrow> Inl e | Inr rest \<Rightarrow> Inr (i # rest)))
          else scope_ids_named ss)"

text \<open>\<^verbatim>\<open>xs[0]\<close> on a Python list.\<close>

definition list_index0 :: "json list \<Rightarrow> pyexc + json" where
  "list_index0 xs = (case xs of [] \<Rightarrow> Inl IndexError | x # rest \<Rightarrow> Inr x)"

text \<open>Step 4 (lines 126 to 156).\<close>

definition groups_scope :: "'r server \<Rightarrow> config \<Rightarrow> json \<Rightarrow> 'r world \<Rightarrow> (stop + json) \<times> 'r world" where
  "groups_scope srv cfg admin_token w0 =
     (case requests_call srv admin_token GET (admin_url cfg [S ''client-scopes'']) [] NoBody w0 of
        (r1, w1) \<Rightarrow>
          (case bindE (json_of r1) (\<lambda>j. bindE (py_iter j) scopes_named) of
             Inl e \<Rightarrow> (Inl (Uncaught e), w1)
           | Inr (s # rest) \<Rightarrow>
               (case py_getitem s ''id'' of
                  Inl e \<Rightarrow> (Inl (Uncaught e), w1)
                | Inr scope_id \<Rightarrow>
                    (Inr scope_id, say Success ''Scope organization already exists (ID: {scope_id})'' w1))
           | Inr [] \<Rightarrow>
               (case requests_call srv admin_token POST (admin_url cfg [S ''client-scopes'']) []
                       (Json scope_data) w1 of
                  (NetErr, w2) \<Rightarrow> (Inl (Uncaught ConnectionError), w2)
                | (Resp st b l, w2) \<Rightarrow>
                    if st = 201
                    then (case requests_call srv admin_token GET (admin_url cfg [S ''client-scopes''])
                                 [] NoBody w2 of
                            (r3, w3) \<Rightarrow>
                              (case bindE (json_of r3)
                                      (\<lambda>j. bindE (py_iter j) (\<lambda>xs. bindE (scope_ids_named xs) list_index0)) of
                                 Inl e \<Rightarrow> (Inl (Uncaught e), w3)
                               | Inr scope_id \<Rightarrow>
                                   (Inr scope_id, say Success ''Scope organization created (ID: {scope_id})'' w3)))
                    else (Inl (Exit 1), say Failure ''Failed to create scope: {response.status_code}'' w2))))"

text \<open>Strings: \<^verbatim>\<open>s.lower()\<close> on the letters A to Z (no other character lowers to a
  letter of \<^verbatim>\<open>organization\<close>), \<^verbatim>\<open>p in s\<close>, and \<^verbatim>\<open>s.split("/")[-1]\<close>.\<close>

definition lower_char :: "char \<Rightarrow> char" where
  "lower_char c =
     (if (65::nat) \<le> of_char c \<and> of_char c \<le> (90::nat) then char_of (of_char c + (32::nat)) else c)"

fun starts_with :: "string \<Rightarrow> string \<Rightarrow> bool" where
  "starts_with [] s = True"
| "starts_with (p # ps) [] = False"
| "starts_with (p # ps) (c # cs) = (p = c \<and> starts_with ps cs)"

fun py_in_str :: "string \<Rightarrow> string \<Rightarrow> bool" where
  "py_in_str p [] = (p = [])"
| "py_in_str p (c # cs) = (starts_with p (c # cs) \<or> py_in_str p cs)"

definition last_segment :: "string \<Rightarrow> string" where
  "last_segment s = rev (takeWhile (\<lambda>c. c \<noteq> CHR ''/'') (rev s))"

text \<open>\<^verbatim>\<open>"organization" in m.get("name", "").lower()\<close>: only a dict has \<^verbatim>\<open>get\<close>, only a
  string has \<^verbatim>\<open>lower\<close>.\<close>

definition names_organization :: "json \<Rightarrow> pyexc + bool" where
  "names_organization m =
     (case py_get m ''name'' (JStr []) of
        Inl e \<Rightarrow> Inl e
      | Inr (JStr n) \<Rightarrow> Inr (py_in_str ''organization'' (map lower_char n))
      | Inr other \<Rightarrow> Inl AttributeError)"

fun mappers_named :: "json list \<Rightarrow> pyexc + json list" where
  "mappers_named [] = Inr []"
| "mappers_named (m # ms) =
     (case names_organization m of
        Inl e \<Rightarrow> Inl e
      | Inr hit \<Rightarrow>
          (case mappers_named ms of
             Inl e \<Rightarrow> Inl e
           | Inr rest \<Rightarrow> Inr (if hit then m # rest else rest)))"

definition mapper_data :: json where
  "mapper_data = JObj
     [(''name'', JStr ''organization-group-mapper''),
      (''protocol'', JStr ''openid-connect''),
      (''protocolMapper'', JStr ''oidc-group-membership-mapper''),
      (''config'', JObj [(''claim.name'', JStr ''groups''),
                         (''full.path'', JStr ''false''),
                         (''id.token.claim'', JStr ''true''),
                         (''access.token.claim'', JStr ''true''),
                         (''userinfo.token.claim'', JStr ''true'')])]"

definition mapper_data_custom :: json where
  "mapper_data_custom = JObj
     [(''name'', JStr ''organization-id-from-group''),
      (''protocol'', JStr ''openid-connect''),
      (''protocolMapper'', JStr ''oidc-usermodel-attribute-mapper''),
      (''config'', JObj [(''user.attribute'', JStr ''organization_id''),
                         (''claim.name'', JStr ''organization_id''),
                         (''jsonType.label'', JStr ''String''),
                         (''id.token.claim'', JStr ''true''),
                         (''access.token.claim'', JStr ''true''),
                         (''userinfo.token.claim'', JStr ''true''),
                         (''multivalued'', JStr ''false''),
                         (''aggregate.attrs'', JStr ''false'')])]"

text \<open>Step 5, first half (lines 161 to 192): the group mapper.\<close>

definition groups_mapper :: "'r server \<Rightarrow> config \<Rightarrow> json \<Rightarrow> json \<Rightarrow> 'r world \<Rightarrow> (stop + unit) \<times> 'r world" where
  "groups_mapper srv cfg admin_token scope_id w0 =
     (case requests_call srv admin_token GET (mappers_url cfg scope_id) [] NoBody w0 of
        (r1, w1) \<Rightarrow>
          (case bindE (json_of r1) (\<lambda>j. bindE (py_iter j) mappers_named) of
             Inl e \<Rightarrow> (Inl (Uncaught e), w1)
           | Inr (m # rest) \<Rightarrow> (Inr (), say Success ''Group mapper already exists'' w1)
           | Inr [] \<Rightarrow>
               (case requests_call srv admin_token POST (mappers_url cfg scope_id) []
                       (Json mapper_data) w1 of
                  (NetErr, w2) \<Rightarrow> (Inl (Uncaught ConnectionError), w2)
                | (Resp st b l, w2) \<Rightarrow>
                    if st = 201 then (Inr (), say Success ''Group mapper created'' w2)
                    else if st = 409 then (Inr (), say Success ''Group mapper already exists'' w2)
                    else (Inr (), say Warning ''Mapper creation returned: {response.status_code}'' w2))))"

text \<open>Step 5, second half (lines 194 to 215): the attribute mapper is posted without a
  lookup.\<close>

definition groups_mapper_custom :: "'r server \<Rightarrow> config \<Rightarrow> json \<Rightarrow> json \<Rightarrow> 'r world \<Rightarrow> (stop + unit) \<times> 'r world" where
  "groups_mapper_custom srv cfg admin_token scope_id w0 =
     (case requests_call srv admin_token POST (mappers_url cfg scope_id) []
             (Json mapper_data_custom) w0 of
        (NetErr, w1) \<Rightarrow> (Inl (Uncaught ConnectionError), w1)
      | (Resp st b l, w1) \<Rightarrow>
          if st = 201 then (Inr (), say Success ''Custom organization_id mapper created'' w1)
          else if st = 409 then (Inr (), say Success ''Custom organization_id mapper already exists'' w1)
          else (Inr (), w1))"

text \<open>Step 6 (lines 220 to 227).\<close>

definition groups_assign_scope ::
    "'r server \<Rightarrow> config \<Rightarrow> json \<Rightarrow> json \<Rightarrow> json \<Rightarrow> 'r world \<Rightarrow> (stop + unit) \<times> 'r world" where
  "groups_assign_scope srv cfg admin_token client_id scope_id w0 =
     (case requests_call srv admin_token PUT
             (admin_url cfg [S ''clients'', V client_id, S ''default-client-scopes'', V scope_id])
             [] NoBody w0 of
        (NetErr, w1) \<Rightarrow> (Inl (Uncaught ConnectionError), w1)
      | (Resp st b l, w1) \<Rightarrow>
          if st = 204 \<or> st = 404 then (Inr (), say Success ''Scope assigned to client as default'' w1)
          else (Inr (), say Warning ''Scope assignment returned: {response.status_code}'' w1))"

definition group_data :: "string \<Rightarrow> json" where
  "group_data org_uuid = JObj
     [(''name'', JStr ''spooliq-platform''),
      (''attributes'', JObj [(''organization_id'', JArr [JStr org_uuid]),
                             (''company_name'', JArr [JStr ''Spooliq Platform''])])]"

text \<open>Step 7 (lines 232 to 261). The identifier of a new group is the last segment of
  the \<^verbatim>\<open>Location\<close> header; without the header, \<^verbatim>\<open>location\<close> is \<^verbatim>\<open>None\<close> and has no
  \<^verbatim>\<open>split\<close>.\<close>

definition groups_group :: "'r server \<Rightarrow> config \<Rightarrow> json \<Rightarrow> string \<Rightarrow> 'r world \<Rightarrow> (stop + json) \<times> 'r world" where
  "groups_group srv cfg admin_token org_uuid w0 =
     (case requests_call srv admin_token GET (admin_url cfg [S ''groups''])
             [(''search'', ''spooliq-platform'')] NoBody w0 of
        (r1, w1) \<Rightarrow>
          (case json_of r1 of
             Inl e \<Rightarrow> (Inl (Uncaught e), w1)
           | Inr existing_groups \<Rightarrow>
               if truthy existing_groups
               then (case first_id existing_groups of
                       Inl e \<Rightarrow> (Inl (Uncaught e), w1)
                     | Inr group_id \<Rightarrow>
                         (Inr group_id, say Success ''Group spooliq-platform already exists (ID: {group_id})'' w1))
               else
                 (case requests_call srv admin_token POST (admin_url cfg [S ''groups'']) []
                         (Json (group_data org_uuid)) w1 of
                    (NetErr, w2) \<Rightarrow> (Inl (Uncaught ConnectionError), w2)
                  | (Resp st b l, w2) \<Rightarrow>
                      if st = 201
                      then (case l of
                              None \<Rightarrow> (Inl (Uncaught AttributeError), w2)
                            | Some location \<Rightarrow>
                                (Inr (JStr (last_segment location)),
                                 say_tenant Plain ''   Organization UUID: {SPOOLIQ_ORG_UUID}'' [org_uuid]
                                   (say Success ''Group spooliq-platform created (ID: {group_id})'' w2)))
                      else (Inl (Exit 1), say Failure ''Failed to create group: {response.status_code}'' w2))))"

text \<open>Step 8 (lines 266 to 277).\<close>

definition groups_find_user :: "'r server \<Rightarrow> config \<Rightarrow> json \<Rightarrow> 'r world \<Rightarrow> (stop + json) \<times> 'r world" where
  "groups_find_user srv cfg admin_token w0 =
     (case requests_call srv admin_token GET (admin_url cfg [S ''users''])
             [(''email'', ADMIN_EMAIL cfg), (''exact'', ''true'')] NoBody w0 of
        (r1, w1) \<Rightarrow>
          (case json_of r1 of
             Inl e \<Rightarrow> (Inl (Uncaught e), w1)
           | Inr users \<Rightarrow>
               if \<not> truthy users
               then (Inl (Exit 1), say Failure (''User not found: '' @ ADMIN_EMAIL cfg) w1)
               else (case first_id users of
                       Inl e \<Rightarrow> (Inl (Uncaught e), w1)
                     | Inr user_id \<Rightarrow> (Inr user_id, say Success ''User found (ID: {user_id})'' w1))))"

text \<open>Step 9, first half (lines 282 to 289).\<close>

definition groups_join_group ::
    "'r server \<Rightarrow> config \<Rightarrow> json \<Rightarrow> json \<Rightarrow> json \<Rightarrow> 'r world \<Rightarrow> (stop + unit) \<times> 'r world" where
  "groups_join_group srv cfg admin_token user_id group_id w0 =
     (case requests_call srv admin_token PUT
             (admin_url cfg [S ''users'', V user_id, S ''groups'', V group_id]) [] NoBody w0 of
        (NetErr, w1) \<Rightarrow> (Inl (Uncaught ConnectionError), w1)
      | (Resp st b l, w1) \<Rightarrow>
          if st = 204 then (Inr (), say Success ''User added to group'' w1)
          else (Inr (), say Warning ''Add to group returned: {response.status_code}'' w1))"

text \<open>Lines 295 to 297: \<^verbatim>\<open>user_data["attributes"] = user_data.get("attributes", {})\<close>, then
  the organization identifier is stored in that dict.\<close>

definition groups_with_organization_id :: "string \<Rightarrow> json \<Rightarrow> pyexc + json" where
  "groups_with_organization_id u user_data =
     (case user_data of
        JObj d \<Rightarrow>
          (case (case map_of d ''attributes'' of None \<Rightarrow> JObj [] | Some a \<Rightarrow> a) of
             JObj a \<Rightarrow>
               Inr (JObj (dict_set d ''attributes''
                            (JObj (dict_set a ''organization_id'' (JArr [JStr u])))))
           | _ \<Rightarrow> Inl TypeError)
      | _ \<Rightarrow> Inl AttributeError)"

text \<open>Step 9, second half (lines 291 to 301).\<close>

definition groups_set_attribute ::
    "'r server \<Rightarrow> config \<Rightarrow> json \<Rightarrow> string \<Rightarrow> json \<Rightarrow> 'r world \<Rightarrow> (stop + unit) \<times> 'r world" where
  "groups_set_attribute srv cfg admin_token org_uuid user_id w0 =
     (case requests_call srv admin_token GET (admin_url cfg [S ''users'', V user_id]) [] NoBody w0 of
        (r1, w1) \<Rightarrow>
          (case bindE (json_of r1) (groups_with_organization_id org_uuid) of
             Inl e \<Rightarrow> (Inl (Uncaught e), w1)
           | Inr user_data \<Rightarrow>
               (case requests_call srv admin_token PUT (admin_url cfg [S ''users'', V user_id]) []
                       (Json user_data) w1 of
                  (NetErr, w2) \<Rightarrow> (Inl (Uncaught ConnectionError), w2)
                | (Resp st b l, w2) \<Rightarrow>
                    if st = 204 then (Inr (), say Success ''organization_id attribute set'' w2)
                    else (Inr (), w2))))"

text \<open>The loop of lines 310 to 314 (and of lines 135 to 140 of \<^verbatim>\<open>fix_keycloak_roles.py\<close>):
  the representation of every role that is answered with status 200.\<close>

fun available_roles :: "'r server \<Rightarrow> config \<Rightarrow> json \<Rightarrow> string list \<Rightarrow> 'r world \<Rightarrow> (stop + json list) \<times> 'r world" where
  "available_roles srv cfg admin_token [] w = (Inr [], w)"
| "available_roles srv cfg admin_token (role # roles) w0 =
     (case requests_call srv admin_token GET (admin_url cfg [S ''roles'', S role]) [] NoBody w0 of
        (NetErr, w1) \<Rightarrow> (Inl (Uncaught ConnectionError), w1)
      | (Resp st b l, w1) \<Rightarrow>
          if st = 200
          then (case b of
                  None \<Rightarrow> (Inl (Uncaught JSONDecodeError), w1)
                | Some j \<Rightarrow>
                    (case available_roles srv cfg admin_token roles w1 of
                       (Inl e, w2) \<Rightarrow> (Inl e, w2)
                     | (Inr js, w2) \<Rightarrow> (Inr (j # js), w2)))
          else available_roles srv cfg admin_token roles w1)"

text \<open>Step 10 (lines 306 to 321).\<close>

definition groups_assign_roles ::
    "'r server \<Rightarrow> config \<Rightarrow> json \<Rightarrow> json \<Rightarrow> 'r world \<Rightarrow> (stop + unit) \<times> 'r world" where
  "groups_assign_roles srv cfg admin_token user_id w0 =
     (case available_roles srv cfg admin_token groups_roles w0 of
        (Inl e, w1) \<Rightarrow> (Inl e, w1)
      | (Inr avail, w1) \<Rightarrow>
          (case requests_call srv admin_token POST
                  (admin_url cfg [S ''users'', V user_id, S ''role-mappings'', S ''realm''])
                  [] (Json (JArr avail)) w1 of
             (NetErr, w2) \<Rightarrow> (Inl (Uncaught ConnectionError), w2)
           | (Resp st b l, w2) \<Rightarrow>
               if st = 204 \<or> st = 409
               then (Inr (), say Success ''Roles assigned: PlatformAdmin, OrgAdmin, Owner, User'' w2)
               else (Inr (), say Warning ''Role assignment returned: {response.status_code}'' w2)))"

text \<open>The closing summary (lines 326 to 383): one line with a mark, and one
  \<^verbatim>\<open>print\<close> that interpolates the organization identifier four times.\<close>

definition groups_summary :: "string \<Rightarrow> 'r world \<Rightarrow> 'r world" where
  "groups_summary org_uuid w =
     say_tenant Plain ''Configuration Summary: ... Organization UUID: {SPOOLIQ_ORG_UUID} ...''
         [org_uuid, org_uuid, org_uuid, org_uuid]
       (say Success ''Setup completed successfully!'' w)"

text \<open>The part of the script after the authentication, steps 2 to 10 and the summary.\<close>

definition groups_steps :: "'r server \<Rightarrow> config \<Rightarrow> string \<Rightarrow> json \<Rightarrow> 'r world \<Rightarrow> (stop + unit) \<times> 'r world" where
  "groups_steps srv cfg org_uuid admin_token w1 =
     (case groups_client srv cfg admin_token w1 of
        (Inl e, w2) \<Rightarrow> (Inl e, w2)
      | (Inr client_id, w2) \<Rightarrow>
     (case groups_create_roles srv cfg admin_token groups_roles w2 of
        (Inl e, w3) \<Rightarrow> (Inl e, w3)
      | (Inr u3, w3) \<Rightarrow>
     (case groups_scope srv cfg admin_token w3 of
        (Inl e, w4) \<Rightarrow> (Inl e, w4)
      | (Inr scope_id, w4) \<Rightarrow>
     (case groups_mapper srv cfg admin_token scope_id w4 of
        (Inl e, w5) \<Rightarrow> (Inl e, w5)
      | (Inr u5, w5) \<Rightarrow>
     (case groups_mapper_custom srv cfg admin_token scope_id w5 of
        (Inl e, w5') \<Rightarrow> (Inl e, w5')
      | (Inr u5', w5') \<Rightarrow>
     (case groups_assign_scope srv cfg admin_token client_id scope_id w5' of
        (Inl e, w6) \<Rightarrow> (Inl e, w6)
      | (Inr u6, w6) \<Rightarrow>
     (case groups_group srv cfg admin_token org_uuid w6 of
        (Inl e, w7) \<Rightarrow> (Inl e, w7)
      | (Inr group_id, w7) \<Rightarrow>
     (case groups_find_user srv cfg admin_token w7 of
        (Inl e, w8) \<Rightarrow> (Inl e, w8)
      | (Inr user_id, w8) \<Rightarrow>
     (case groups_join_group srv cfg admin_token user_id group_id w8 of
        (Inl e, w9) \<Rightarrow> (Inl e, w9)
      | (Inr u9, w9) \<Rightarrow>
     (case groups_set_attribute srv cfg admin_token org_uuid user_id w9 of
        (Inl e, w9') \<Rightarrow> (Inl e, w9')
      | (Inr u9', w9') \<Rightarrow>
     (case groups_assign_roles srv cfg admin_token user_id w9' of
        (Inl e, w10) \<Rightarrow> (Inl e, w10)
      | (Inr u10, w10) \<Rightarrow> (Inr (), groups_summary org_uuid w10))))))))))))"

text \<open>The whole script: the identifier is drawn at line 21, before the first request;
  the exit status is 0 when the last line is reached.\<close>

definition setup_keycloak_groups :: "'r server \<Rightarrow> config \<Rightarrow> 'r world \<Rightarrow> nat \<times> 'r world" where
  "setup_keycloak_groups srv cfg w =
     (case uuid4 w of
        (org_uuid, wu) \<Rightarrow>
          (case script_authenticate srv cfg
                  (say_tenant Plain ''Generated Organization UUID: {SPOOLIQ_ORG_UUID}'' [org_uuid] wu) of
             (Inl e, w1) \<Rightarrow> (exit_status e, w1)
           | (Inr admin_token, w1) \<Rightarrow>
               (case groups_steps srv cfg org_uuid admin_token w1 of
                  (Inl e, w2) \<Rightarrow> (exit_status e, w2)
                | (Inr u, w2) \<Rightarrow> (0, w2))))"

section \<open>fix_keycloak_roles.py\<close>

text \<open>
  The script reads its configuration as \<^verbatim>\<open>setup_keycloak_multitenant.py\<close> does (lines 15
  to 27) and authenticates as \<^verbatim>\<open>setup_keycloak_groups.py\<close> does (lines 40 to 56). Its loop
  that creates the roles (lines 84 to 100) and its user lookup (lines 109 to 117) are the
  statements of \<open>groups_create_roles\<close> and \<open>groups_find_user\<close>.
\<close>

definition old_roles :: "string list" where
  "old_roles = [''user'', ''adm'', ''User'']"

text \<open>Step 2 (lines 69 to 77): delete the old realm roles.\<close>

fun delete_old_roles :: "'r server \<Rightarrow> config \<Rightarrow> json \<Rightarrow> string list \<Rightarrow> 'r world \<Rightarrow> (stop + unit) \<times> 'r world" where
  "delete_old_roles srv cfg admin_token [] w = (Inr (), w)"
| "delete_old_roles srv cfg admin_token (role # roles) w0 =
     (case requests_call srv admin_token DELETE (admin_url cfg [S ''roles'', S role]) [] NoBody w0 of
        (NetErr, w1) \<Rightarrow> (Inl (Uncaught ConnectionError), w1)
      | (Resp st b l, w1) \<Rightarrow>
          delete_old_roles srv cfg admin_token roles
            (if st = 204 then say Success (''Deleted role '' @ role) w1
             else if st = 404 then say Info (''Role '' @ role @ '' does not exist'') w1
             else say Warning (''Failed to delete role '' @ role @ '': {response.status_code}'') w1))"

definition user_roles_url :: "config \<Rightarrow> json \<Rightarrow> seg list" where
  "user_roles_url cfg user_id = admin_url cfg [S ''users'', V user_id, S ''role-mappings'', S ''realm'']"

text \<open>Lines 119 to 130: read the realm roles mapped to the user and, when the answer is
  not empty, send it back in a \<^verbatim>\<open>DELETE\<close>.\<close>

definition remove_current_roles ::
    "'r server \<Rightarrow> config \<Rightarrow> json \<Rightarrow> json \<Rightarrow> 'r world \<Rightarrow> (stop + unit) \<times> 'r world" where
  "remove_current_roles srv cfg admin_token user_id w0 =
     (case requests_call srv admin_token GET (user_roles_url cfg user_id) [] NoBody w0 of
        (r1, w1) \<Rightarrow>
          (case json_of r1 of
             Inl e \<Rightarrow> (Inl (Uncaught e), w1)
           | Inr current_roles \<Rightarrow>
               if truthy current_roles
               then (case requests_call srv admin_token DELETE (user_roles_url cfg user_id) []
                             (Json current_roles) w1 of
                       (NetErr, w2) \<Rightarrow> (Inl (Uncaught ConnectionError), w2)
                     | (Resp st b l, w2) \<Rightarrow>
                         if st = 204 then (Inr (), say Success ''Old roles removed'' w2)
                         else (Inr (), w2))
               else (Inr (), w1)))"

text \<open>Lines 132 to 148: collect the roles that exist and, when there is one, assign
  them.\<close>

definition assign_new_roles ::
    "'r server \<Rightarrow> config \<Rightarrow> json \<Rightarrow> json \<Rightarrow> 'r world \<Rightarrow> (stop + unit) \<times> 'r world" where
  "assign_new_roles srv cfg admin_token user_id w0 =
     (case available_roles srv cfg admin_token groups_roles w0 of
        (Inl e, w1) \<Rightarrow> (Inl e, w1)
      | (Inr avail, w1) \<Rightarrow>
          if avail = [] then (Inr (), w1)
          else
            (case requests_call srv admin_token POST (user_roles_url cfg user_id) []
                    (Json (JArr avail)) w1 of
               (NetErr, w2) \<Rightarrow> (Inl (Uncaught ConnectionError), w2)
             | (Resp st b l, w2) \<Rightarrow>
                 if st = 204 \<or> st = 409
                 then (Inr (), say Success ''Roles assigned: PlatformAdmin, OrgAdmin, Owner, User'' w2)
                 else (Inr (), say Warning ''Role assignment returned: {response.status_code}'' w2)))"

definition fix_steps :: "'r server \<Rightarrow> config \<Rightarrow> json \<Rightarrow> 'r world \<Rightarrow> (stop + unit) \<times> 'r world" where
  "fix_steps srv cfg admin_token w1 =
     (case delete_old_roles srv cfg admin_token old_roles w1 of
        (Inl e, w2) \<Rightarrow> (Inl e, w2)
      | (Inr u2, w2) \<Rightarrow>
     (case groups_create_roles srv cfg admin_token groups_roles w2 of
        (Inl e, w3) \<Rightarrow> (Inl e, w3)
      | (Inr u3, w3) \<Rightarrow>
     (case groups_find_user srv cfg admin_token w3 of
        (Inl e, w4) \<Rightarrow> (Inl e, w4)
      | (Inr user_id, w4) \<Rightarrow>
     (case remove_current_roles srv cfg admin_token user_id w4 of
        (Inl e, w5) \<Rightarrow> (Inl e, w5)
      | (Inr u5, w5) \<Rightarrow>
     (case assign_new_roles srv cfg admin_token user_id w5 of
        (Inl e, w6) \<Rightarrow> (Inl e, w6)
      | (Inr u6, w6) \<Rightarrow> (Inr (), say Success ''Keycloak roles fixed successfully!'' w6))))))"

definition fix_keycloak_roles :: "'r server \<Rightarrow> env \<Rightarrow> 'r world \<Rightarrow> nat \<times> 'r world" where
  "fix_keycloak_roles srv e w =
     (case load_config e of
        None \<Rightarrow> (1, say Failure ''Error: KEYCLOAK_ADMIN_EMAIL and KEYCLOAK_ADMIN_PASSWORD environment variables are required'' w)
      | Some cfg \<Rightarrow>
          (case script_authenticate srv cfg w of
             (Inl e, w1) \<Rightarrow> (exit_status e, w1)
           | (Inr admin_token, w1) \<Rightarrow>
               (case fix_steps srv cfg admin_token w1 of
                  (Inl e, w2) \<Rightarrow> (exit_status e, w2)
                | (Inr u, w2) \<Rightarrow> (0, w2))))"

section \<open>Vocabulary of the statements\<close>

text \<open>A server that answers from a fixed list of replies, whatever the request, and
  with a network error once the list is used up.\<close>

definition replay :: "reply list server" where
  "replay rs rq = (case rs of [] \<Rightarrow> (NetErr, []) | r # rest \<Rightarrow> (r, rest))"

text \<open>\<open>extends P Q w w'\<close>: the world \<open>w'\<close> is \<open>w\<close> with further calls, all of which
  satisfy \<open>P\<close>, and further printed lines, all of which satisfy \<open>Q\<close>, and with no
  further identifier drawn.\<close>

definition extends :: "(request \<times> reply \<Rightarrow> bool) \<Rightarrow> (line \<Rightarrow> bool) \<Rightarrow> 'r world \<Rightarrow> 'r world \<Rightarrow> bool" where
  "extends P Q w w' =
     (\<exists>cs ls. calls w' = calls w @ cs \<and> printed w' = printed w @ ls \<and>
        list_all P cs \<and> list_all Q ls \<and> drawn w' = drawn w \<and> uuids w' = uuids w)"

text \<open>A configuration, a starting world over a given remote state, and the replies of a
  service on which everything exists already, in the order in which
  \<^verbatim>\<open>setup_keycloak_multitenant.py\<close> asks for them.\<close>

definition example_config :: config where
  "example_config =
     \<lparr>base_url = ''https://auth.example.org'', realm = ''spooliq'',
      ADMIN_EMAIL = ''admin@example.org'', ADMIN_PASSWORD = ''secret''\<rparr>"

definition example_uuids :: "nat \<Rightarrow> string" where
  "example_uuids n = ''uuid-'' @ replicate n (CHR ''x'')"

definition start_world :: "'r \<Rightarrow> 'r world" where
  "start_world r = \<lparr>remote = r, calls = [], printed = [], uuids = example_uuids, drawn = 0\<rparr>"

definition token_reply :: "nat \<Rightarrow> reply" where
  "token_reply st = Resp st (Some (JObj [(''access_token'', JStr ''t0'')])) None"

definition role_rep :: "string \<Rightarrow> json" where
  "role_rep n = JObj [(''id'', JStr (''role-'' @ n)), (''name'', JStr n)]"

definition user_rep :: json where
  "user_rep = JObj [(''id'', JStr ''u1''), (''email'', JStr ''admin@example.org''),
                    (''attributes'', JObj [(''locale'', JArr [JStr ''pt'']),
                                           (''organization_id'', JArr [JStr ''old''])])]"

definition provisioned_replies :: "nat \<Rightarrow> reply list \<Rightarrow> nat \<Rightarrow> reply list" where
  "provisioned_replies token_status role_replies assign_status =
     [token_reply token_status,
      Resp 200 (Some (JArr [JObj [(''id'', JStr ''c1''), (''clientId'', JStr ''spooliq'')]])) None]
     @ role_replies @
     [Resp 200 (Some (JArr [JObj [(''id'', JStr ''s1''), (''name'', JStr ''organization'')]])) None,
      Resp 200 (Some (JArr [JObj [(''id'', JStr ''m1''), (''name'', JStr ''organization-id-mapper'')]])) None,
      Resp assign_status None None,
      Resp 200 (Some (JArr [user_rep])) None,
      Resp 200 (Some user_rep) None,
      Resp 204 None None,
      Resp 200 (Some (JArr [role_rep ''PlatformAdmin'', role_rep ''OrgAdmin'', role_rep ''User''])) None,
      Resp 204 None None]"

definition roles_exist :: "reply list" where
  "roles_exist =
     [Resp 200 (Some (role_rep ''PlatformAdmin'')) None,
      Resp 200 (Some (role_rep ''OrgAdmin'')) None,
      Resp 200 (Some (role_rep ''User'')) None]"

text \<open>The organization identifiers that a request carries: the value of
  \<^verbatim>\<open>attributes.organization_id\<close> in its JSON body. A call carries only \<open>u\<close> when every such
  value is the one-element list of \<open>u\<close>; a line prints only \<open>u\<close> when every identifier
  interpolated into it is \<open>u\<close>.\<close>

definition tenant_values :: "request \<Rightarrow> json list" where
  "tenant_values rq =
     (case body rq of
        Json (JObj d) \<Rightarrow>
          (case map_of d ''attributes'' of
             Some (JObj a) \<Rightarrow> (case map_of a ''organization_id'' of Some v \<Rightarrow> [v] | None \<Rightarrow> [])
           | _ \<Rightarrow> [])
      | _ \<Rightarrow> [])"

definition carries_only :: "string \<Rightarrow> request \<times> reply \<Rightarrow> bool" where
  "carries_only u c = list_all (\<lambda>v. v = JArr [JStr u]) (tenant_values (fst c))"

definition prints_only :: "string \<Rightarrow> line \<Rightarrow> bool" where
  "prints_only u l = list_all (\<lambda>t. t = u) (line_tenant l)"

text \<open>Requests under \<^verbatim>\<open>/admin/realms/{realm}/users\<close>: the lookup by e-mail, and the
  requests that change something (every method but \<^verbatim>\<open>GET\<close>), among them the update of
  a user, the assignment of role mappings and the creation of a user.\<close>

definition on_users :: "request \<Rightarrow> bool" where
  "on_users rq =
     (case url rq of
        b # a # rs # r # S k # rest \<Rightarrow> k = ''users''
      | _ \<Rightarrow> False)"

definition user_write :: "request \<Rightarrow> bool" where
  "user_write rq = (meth rq \<noteq> GET \<and> on_users rq)"

definition user_lookup :: "config \<Rightarrow> request \<Rightarrow> bool" where
  "user_lookup cfg rq =
     (meth rq = GET \<and> url rq = admin_url cfg [S ''users''] \<and>
      params rq = [(''email'', ADMIN_EMAIL cfg), (''exact'', ''true'')])"

text \<open>The same service when the user is missing: the lookup by e-mail is answered with an
  empty list.\<close>

definition no_user_replies :: "reply list" where
  "no_user_replies = take 8 (provisioned_replies 200 roles_exist 204) @ [Resp 200 (Some (JArr [])) None]"

definition lookup_request :: "json option \<Rightarrow> request" where
  "lookup_request tok =
     Request GET (admin_url example_config [S ''users''])
       [(''email'', ''admin@example.org''), (''exact'', ''true'')] NoBody tok"

text \<open>The replies of a service on which everything exists already, in the order in which
  \<^verbatim>\<open>setup_keycloak_groups.py\<close> asks for them; the replies about the four realm roles and
  the reply to the user lookup are parameters.\<close>

definition groups_replies :: "reply list \<Rightarrow> reply \<Rightarrow> reply list" where
  "groups_replies role_replies users_reply =
     [token_reply 200,
      Resp 200 (Some (JArr [JObj [(''id'', JStr ''c1''), (''clientId'', JStr ''spooliq'')]])) None]
     @ role_replies @
     [Resp 200 (Some (JArr [JObj [(''id'', JStr ''s1''), (''name'', JStr ''organization'')]])) None,
      Resp 200 (Some (JArr [JObj [(''id'', JStr ''m1''), (''name'', JStr ''organization-group-mapper'')]])) None,
      Resp 409 None None,
      Resp 204 None None,
      Resp 200 (Some (JArr [JObj [(''id'', JStr ''g1''), (''name'', JStr ''spooliq-platform'')]])) None,
      users_reply,
      Resp 204 None None,
      Resp 200 (Some user_rep) None,
      Resp 204 None None,
      Resp 200 (Some (role_rep ''PlatformAdmin'')) None,
      Resp 200 (Some (role_rep ''OrgAdmin'')) None,
      Resp 200 (Some (role_rep ''Owner'')) None,
      Resp 200 (Some (role_rep ''User'')) None,
      Resp 204 None None]"

definition four_roles_exist :: "reply list" where
  "four_roles_exist =
     [Resp 200 (Some (role_rep ''PlatformAdmin'')) None,
      Resp 200 (Some (role_rep ''OrgAdmin'')) None,
      Resp 200 (Some (role_rep ''Owner'')) None,
      Resp 200 (Some (role_rep ''User'')) None]"

section \<open>How the steps extend the world\<close>

lemma map_of_dict_set: "map_of (dict_set d k v) k' = (if k' = k then Some v else map_of d k')"
  by (induction d) auto

lemma extends_refl: "extends P Q w w"
  by (simp add: extends_def)

lemma extends_trans: "extends P Q w1 w2 \<Longrightarrow> extends P Q w2 w3 \<Longrightarrow> extends P Q w1 w3"
  by (auto simp: extends_def)

lemma extends_mono:
  "extends P Q w w' \<Longrightarrow> (\<And>c. P c \<Longrightarrow> P' c) \<Longrightarrow> (\<And>l. Q l \<Longrightarrow> Q' l) \<Longrightarrow> extends P' Q' w w'"
  unfolding extends_def list_all_iff by blast

text \<open>The calls of the steps before the user lookup carry no other organization
  identifier and do not touch the users; the calls of the steps after it carry no other
  identifier and are not the lookup.\<close>

definition early :: "string \<Rightarrow> request \<times> reply \<Rightarrow> bool" where
  "early u c = (carries_only u c \<and> \<not> on_users (fst c))"

definition late :: "config \<Rightarrow> string \<Rightarrow> request \<times> reply \<Rightarrow> bool" where
  "late cfg u c = (carries_only u c \<and> \<not> user_lookup cfg (fst c))"

lemma tenant_values_simps [simp]:
  "tenant_values (Request m p q NoBody t) = []"
  "tenant_values (Request m p q (Form f) t) = []"
  "tenant_values (Request m p q (token_data cfg) t) = []"
  "tenant_values (Request m p q (Json (JArr xs)) t) = []"
  "tenant_values (Request m p q (Json client_config) t) = []"
  "tenant_values (Request m p q (Json (role_config n)) t) = []"
  "tenant_values (Request m p q (Json scope_config) t) = []"
  "tenant_values (Request m p q (Json mapper_config) t) = []"
  "tenant_values (Request m p q (Json client_data) t) = []"
  "tenant_values (Request m p q (Json (role_data n)) t) = []"
  "tenant_values (Request m p q (Json scope_data) t) = []"
  "tenant_values (Request m p q (Json mapper_data) t) = []"
  "tenant_values (Request m p q (Json mapper_data_custom) t) = []"
  "tenant_values (Request m p q (Json (group_data u)) t) = [JArr [JStr u]]"
  by (simp_all add: tenant_values_def token_data_def client_config_def role_config_def scope_config_def
      mapper_config_def client_data_def role_data_def scope_data_def mapper_data_def
      mapper_data_custom_def group_data_def)

lemma tenant_values_with_organization_id:
  "with_organization_id u j = Inr j' \<Longrightarrow> tenant_values (Request m p q (Json j') t) = [JArr [JStr u]]"
  by (auto simp: with_organization_id_def tenant_values_def map_of_dict_set
      split: json.splits option.splits)

lemma tenant_values_groups_with_organization_id:
  "groups_with_organization_id u j = Inr j' \<Longrightarrow> tenant_values (Request m p q (Json j') t) = [JArr [JStr u]]"
  by (auto simp: groups_with_organization_id_def tenant_values_def map_of_dict_set
      split: json.splits option.splits)

lemma on_users_simps [simp]:
  "on_users (Request m (admin_url cfg (S k # rest)) q b t) = (k = ''users'')"
  "on_users (Request m (token_url cfg) q b t) = False"
  "on_users (Request m (mappers_url cfg sid) q b t) = False"
  "on_users (Request m (user_roles_url cfg uid) q b t) = True"
  by (simp_all add: on_users_def admin_url_def token_url_def mappers_url_def user_roles_url_def)

lemma admin_url_eq [simp]: "(admin_url cfg p = admin_url cfg p') = (p = p')"
  by (simp add: admin_url_def)

lemma user_lookup_simps [simp]:
  "user_lookup cfg (Request m u q b t)
     = (m = GET \<and> u = admin_url cfg [S ''users''] \<and> q = [(''email'', ADMIN_EMAIL cfg), (''exact'', ''true'')])"
  by (simp add: user_lookup_def)

lemma user_write_simps [simp]:
  "user_write (Request m u q b t) = (m \<noteq> GET \<and> on_users (Request m u q b t))"
  by (simp add: user_write_def)

lemma early_simps [simp]:
  "early u (rq, rep) = (list_all (\<lambda>v. v = JArr [JStr u]) (tenant_values rq) \<and> \<not> on_users rq)"
  by (simp add: early_def carries_only_def)

lemma late_simps [simp]:
  "late cfg u (rq, rep) = (list_all (\<lambda>v. v = JArr [JStr u]) (tenant_values rq) \<and> \<not> user_lookup cfg rq)"
  by (simp add: late_def carries_only_def)

lemma carries_only_simps [simp]:
  "carries_only u (rq, rep) = list_all (\<lambda>v. v = JArr [JStr u]) (tenant_values rq)"
  by (simp add: carries_only_def)

lemma prints_only_simps [simp]: "prints_only u (Line m t us) = list_all (\<lambda>t. t = u) us"
  by (simp add: prints_only_def)

lemma early_carries: "extends (early u) Q w w' \<Longrightarrow> extends (carries_only u) Q w w'"
  by (erule extends_mono) (simp_all add: early_def)

lemma late_carries: "extends (late cfg u) Q w w' \<Longrightarrow> extends (carries_only u) Q w w'"
  by (erule extends_mono) (simp_all add: late_def)

lemmas io_defs = session_def requests_call_def http_def say_def say_tenant_def extends_def
  checked_def checked_json_def json_of_def bindE_def

subsection \<open>The steps of setup_keycloak_multitenant.py\<close>

lemma get_admin_token_facts:
  "get_admin_token srv cfg self w = (res, self', w') \<Longrightarrow>
     extends (early u) (prints_only u) w w' \<and> organization_uuid self' = organization_uuid self"
  by (auto simp: get_admin_token_def io_defs split: prod.splits sum.splits if_splits)

lemma create_client_extends:
  "create_client srv cfg self w = (res, w') \<Longrightarrow> extends (early u) (prints_only u) w w'"
  by (auto simp: create_client_def create_client_new_def io_defs
      split: prod.splits sum.splits option.splits if_splits)

lemma create_role_extends:
  "create_role srv cfg self n (ok, w) = (ok', w') \<Longrightarrow> extends (early u) (prints_only u) w w'"
  by (auto simp: create_role_def io_defs
      split: prod.splits sum.splits option.splits if_splits reply.splits)

lemma create_roles_fold:
  "foldl (\<lambda>acc role_name. create_role srv cfg self role_name acc) (ok, w) ns = (ok', w')
     \<Longrightarrow> extends (early u) (prints_only u) w w'"
proof (induction ns arbitrary: ok w)
  case Nil
  then show ?case by (simp add: extends_refl)
next
  case (Cons n ns)
  obtain ok1 w1 where s: "create_role srv cfg self n (ok, w) = (ok1, w1)"
    by (cases "create_role srv cfg self n (ok, w)")
  with Cons.prems have "foldl (\<lambda>acc role_name. create_role srv cfg self role_name acc) (ok1, w1) ns = (ok', w')"
    by simp
  from Cons.IH [OF this] create_role_extends [OF s] show ?case
    by (blast intro: extends_trans)
qed

lemma create_roles_extends:
  "create_roles srv cfg self w = (res, w') \<Longrightarrow> extends (early u) (prints_only u) w w'"
  unfolding create_roles_def by (rule create_roles_fold)

lemma create_client_scope_extends:
  "create_client_scope srv cfg self w = (res, w') \<Longrightarrow> extends (early u) (prints_only u) w w'"
  by (auto simp: create_client_scope_def create_client_scope_new_def io_defs
      split: prod.splits sum.splits option.splits if_splits)

lemma create_protocol_mapper_extends:
  "create_protocol_mapper srv cfg self sid w = (res, w') \<Longrightarrow> extends (early u) (prints_only u) w w'"
  by (auto simp: create_protocol_mapper_def io_defs
      split: prod.splits sum.splits option.splits if_splits reply.splits)

lemma assign_scope_to_client_extends:
  "assign_scope_to_client srv cfg self cid sid w = (res, w') \<Longrightarrow> extends (early u) (prints_only u) w w'"
  by (auto simp: assign_scope_to_client_def io_defs
      split: prod.splits sum.splits option.splits if_splits reply.splits)

lemma set_user_attribute_extends:
  "set_user_attribute srv cfg self uid w = (res, w') \<Longrightarrow>
     extends (late cfg (organization_uuid self)) (prints_only (organization_uuid self)) w w'"
  by (auto simp: set_user_attribute_def io_defs tenant_values_with_organization_id
      split: prod.splits sum.splits option.splits if_splits)

lemma assign_roles_to_user_extends:
  "assign_roles_to_user srv cfg self uid w = (res, w') \<Longrightarrow> extends (late cfg u) (prints_only u) w w'"
  by (auto simp: assign_roles_to_user_def io_defs
      split: prod.splits sum.splits option.splits if_splits)

text \<open>The user lookup is one call; an answer without a user gives no identifier.\<close>

lemma find_user_by_email_call:
  "find_user_by_email srv cfg self email w = (res, w') \<Longrightarrow>
     \<exists>rep. calls w' = calls w @ [(Request GET (admin_url cfg [S ''users''])
                                    [(''email'', email), (''exact'', ''true'')] NoBody (token self), rep)] \<and>
           (\<forall>st users l. rep = Resp st (Some users) l \<and> \<not> truthy users \<and> \<not> http_error st \<longrightarrow> res = Inr JNull) \<and>
           extends (carries_only u) (prints_only u) w w'"
  by (auto simp: find_user_by_email_def io_defs
      split: prod.splits sum.splits option.splits if_splits)

subsection \<open>The shape of a run\<close>

lemma seq_token:
  assumes "(case m of (Inl e, s, w1) \<Rightarrow> (Inl e, w1)
            | (Inr b, s, w1) \<Rightarrow> if \<not> b then (Inr False, w1) else k s w1) = (res, w')"
  obtains (stop) r s w1 where "m = (r, s, w1)" "res \<noteq> Inr True" "w' = w1"
        | (go) s w1 where "m = (Inr True, s, w1)" "k s w1 = (res, w')"
  using assms by (cases m) (auto split: sum.splits if_splits)

lemma seq_json:
  assumes "(case m of (Inl e, w1) \<Rightarrow> (Inl e, w1)
            | (Inr v, w1) \<Rightarrow> if \<not> truthy v then (Inr False, w1) else k v w1) = (res, w')"
  obtains (stop) r w1 where "m = (r, w1)" "res \<noteq> Inr True" "w' = w1"
        | (go) v w1 where "m = (Inr v, w1)" "truthy v" "k v w1 = (res, w')"
  using assms by (cases m) (auto split: sum.splits if_splits)

lemma seq_bool:
  assumes "(case m of (b, w1) \<Rightarrow> if \<not> b then (Inr False, w1) else k w1) = (res, w')"
  obtains (stop) r w1 where "m = (r, w1)" "res \<noteq> Inr True" "w' = w1"
        | (go) w1 where "m = (True, w1)" "k w1 = (res, w')"
  using assms by (cases m) (auto split: sum.splits if_splits)

lemma seq_exc_bool:
  assumes "(case m of (Inl e, w1) \<Rightarrow> (Inl e, w1)
            | (Inr b, w1) \<Rightarrow> if \<not> b then (Inr False, w1) else k w1) = (res, w')"
  obtains (stop) r w1 where "m = (r, w1)" "res \<noteq> Inr True" "w' = w1"
        | (go) w1 where "m = (Inr True, w1)" "k w1 = (res, w')"
  using assms by (cases m) (auto split: sum.splits if_splits)

lemma run_inversion:
  "run srv cfg self0 w0 = (res, w') \<Longrightarrow>
     (res \<noteq> Inr True \<and> extends (early u) (prints_only u) w0 w')
   \<or> (\<exists>self w6 r7 w7.
         find_user_by_email srv cfg self (ADMIN_EMAIL cfg) w6 = (r7, w7) \<and>
         organization_uuid self = organization_uuid self0 \<and>
         extends (early u) (prints_only u) w0 w6 \<and>
         ((res \<noteq> Inr True \<and> w' = w7)
          \<or> ((\<exists>v. r7 = Inr v \<and> truthy v) \<and>
              extends (late cfg (organization_uuid self0)) (prints_only (organization_uuid self0)) w7 w')))"
  apply (unfold run_def)
  apply (erule seq_token)
  subgoal by (auto dest!: get_admin_token_facts [where u = u])
  apply (erule seq_json)
  subgoal by (rule disjI1) (auto dest!: get_admin_token_facts [where u = u]
     create_client_extends [where u = u] simp: extends_def)
  apply (erule seq_bool)
  subgoal by (rule disjI1) (auto dest!: get_admin_token_facts [where u = u]
     create_client_extends [where u = u] create_roles_extends [where u = u] simp: extends_def)
  apply (erule seq_json)
  subgoal by (rule disjI1) (auto dest!: get_admin_token_facts [where u = u]
     create_client_extends [where u = u] create_roles_extends [where u = u]
     create_client_scope_extends [where u = u] simp: extends_def)
  apply (erule seq_bool)
  subgoal by (rule disjI1) (auto dest!: get_admin_token_facts [where u = u]
     create_client_extends [where u = u] create_roles_extends [where u = u]
     create_client_scope_extends [where u = u] create_protocol_mapper_extends [where u = u]
     simp: extends_def)
  apply (erule seq_bool)
  subgoal by (rule disjI1) (auto dest!: get_admin_token_facts [where u = u]
     create_client_extends [where u = u] create_roles_extends [where u = u]
     create_client_scope_extends [where u = u] create_protocol_mapper_extends [where u = u]
     assign_scope_to_client_extends [where u = u]
     simp: extends_def)
  apply (rule disjI2)
  apply (erule seq_json)
  subgoal
    apply (intro exI conjI, assumption)
    by (auto dest!: get_admin_token_facts [where u = u]
     create_client_extends [where u = u] create_roles_extends [where u = u]
     create_client_scope_extends [where u = u] create_protocol_mapper_extends [where u = u]
     assign_scope_to_client_extends [where u = u]
     simp: extends_def)
  apply (intro exI conjI, assumption)
  subgoal by (auto dest!: get_admin_token_facts [where u = u])
  subgoal by (auto dest!: get_admin_token_facts [where u = u]
     create_client_extends [where u = u] create_roles_extends [where u = u]
     create_client_scope_extends [where u = u] create_protocol_mapper_extends [where u = u]
     assign_scope_to_client_extends [where u = u]
     simp: extends_def)
  apply (rule disjI2)
  apply (erule seq_exc_bool)
  subgoal by (auto dest!: get_admin_token_facts [where u = u] set_user_attribute_extends)
  apply (erule seq_exc_bool)
  subgoal by (auto dest!: get_admin_token_facts [where u = u] set_user_attribute_extends
      assign_roles_to_user_extends [where u = "organization_uuid self0"] simp: extends_def)
  by (auto dest!: get_admin_token_facts [where u = u] set_user_attribute_extends
      assign_roles_to_user_extends [where u = "organization_uuid self0"]
      simp: extends_def run_summary_def say_def say_tenant_def)

lemma main_run:
  "\<exists>self0 w0 res w'. run srv cfg self0 w0 = (res, w') \<and> calls w0 = calls w \<and> printed w0 = printed w \<and>
     drawn w0 = Suc (drawn w) \<and> uuids w0 = uuids w \<and> organization_uuid self0 = uuids w (drawn w) \<and>
     calls (snd (main srv cfg w)) = calls w' \<and> ((fst (main srv cfg w) = 1) = (res \<noteq> Inr True)) \<and>
     fst (main srv cfg w) \<le> 1 \<and>
     drawn (snd (main srv cfg w)) = drawn w' \<and>
     (\<exists>ls. printed (snd (main srv cfg w)) = printed w' @ ls \<and> list_all (\<lambda>l. line_tenant l = []) ls)"
proof -
  let ?self0 = "\<lparr>token = None, organization_uuid = uuids w (drawn w)\<rparr>"
  let ?w0 = "w\<lparr>drawn := Suc (drawn w)\<rparr>"
  obtain res w' where r: "run srv cfg ?self0 ?w0 = (res, w')"
    by (cases "run srv cfg ?self0 ?w0")
  show ?thesis
    apply (rule exI [of _ ?self0], rule exI [of _ ?w0], rule exI [of _ res], rule exI [of _ w'])
    using r by (auto simp: main_def KeycloakSetup_init_def uuid4_def say_def split: sum.splits)
qed

lemma run_extends:
  assumes "run srv cfg self0 w0 = (res, w')"
  shows "extends (carries_only (organization_uuid self0)) (prints_only (organization_uuid self0)) w0 w'"
  using run_inversion [OF assms, of "organization_uuid self0"]
proof (elim disjE conjE exE)
  assume "extends (early (organization_uuid self0)) (prints_only (organization_uuid self0)) w0 w'"
  then show ?thesis by (rule early_carries)
next
  fix self w6 r7 w7
  assume f: "find_user_by_email srv cfg self (ADMIN_EMAIL cfg) w6 = (r7, w7)"
    and e: "extends (early (organization_uuid self0)) (prints_only (organization_uuid self0)) w0 w6"
    and "w' = w7"
  with find_user_by_email_call [OF f, of "organization_uuid self0"] early_carries [OF e]
  show ?thesis by (blast intro: extends_trans)
next
  fix self w6 r7 w7 v
  assume f: "find_user_by_email srv cfg self (ADMIN_EMAIL cfg) w6 = (r7, w7)"
    and e: "extends (early (organization_uuid self0)) (prints_only (organization_uuid self0)) w0 w6"
    and l: "extends (late cfg (organization_uuid self0)) (prints_only (organization_uuid self0)) w7 w'"
  with find_user_by_email_call [OF f, of "organization_uuid self0"] early_carries [OF e] late_carries [OF l]
  show ?thesis by (blast intro: extends_trans)
qed

lemma main_guard:
  assumes c: "c \<in> set (drop (length (calls w)) (calls (snd (main srv cfg w))))"
    and lk: "user_lookup cfg (fst c)"
    and rep: "snd c = Resp st (Some users) l" "\<not> truthy users" "\<not> (400 \<le> st \<and> st < 600)"
  shows "fst (main srv cfg w) = 1 \<and>
         (\<forall>c' \<in> set (drop (length (calls w)) (calls (snd (main srv cfg w)))). \<not> user_write (fst c'))"
proof -
  obtain self0 w0 res w' where r: "run srv cfg self0 w0 = (res, w')" and cw: "calls w0 = calls w"
    and cf: "calls (snd (main srv cfg w)) = calls w'" and ex: "(fst (main srv cfg w) = 1) = (res \<noteq> Inr True)"
    using main_run [of srv cfg w] by blast
  have lk': "on_users (fst c)" "meth (fst c) = GET"
    using lk by (cases "fst c"; simp add: user_lookup_def on_users_def admin_url_def)+
  from run_inversion [OF r, of "''u''"] show ?thesis
  proof (elim disjE conjE exE)
    assume "extends (early ''u'') (prints_only ''u'') w0 w'"
    then obtain cs where "calls w' = calls w0 @ cs" "list_all (early ''u'') cs"
      by (auto simp: extends_def)
    with c cf cw lk' have False
      by (auto simp: list_all_iff early_def)
    then show ?thesis ..
  next
    fix self w6 r7 w7
    assume f: "find_user_by_email srv cfg self (ADMIN_EMAIL cfg) w6 = (r7, w7)"
      and e: "extends (early ''u'') (prints_only ''u'') w0 w6"
      and res: "res \<noteq> Inr True" and w: "w' = w7"
    from e obtain cs where cs: "calls w6 = calls w0 @ cs" "list_all (early ''u'') cs"
      by (auto simp: extends_def)
    from find_user_by_email_call [OF f, of "''u''"] obtain rep0 where
      "calls w7 = calls w6 @ [(Request GET (admin_url cfg [S ''users''])
                                [(''email'', ADMIN_EMAIL cfg), (''exact'', ''true'')] NoBody (token self), rep0)]"
      by blast
    with cs cf cw w ex res show ?thesis
      by (auto simp: list_all_iff early_def user_write_def)
  next
    fix self w6 r7 w7 v
    assume f: "find_user_by_email srv cfg self (ADMIN_EMAIL cfg) w6 = (r7, w7)"
      and e: "extends (early ''u'') (prints_only ''u'') w0 w6"
      and v: "r7 = Inr v" "truthy v"
      and l: "extends (late cfg (organization_uuid self0)) (prints_only (organization_uuid self0)) w7 w'"
    from e obtain cs where cs: "calls w6 = calls w0 @ cs" "list_all (early ''u'') cs"
      by (auto simp: extends_def)
    from l obtain cs' where cs': "calls w' = calls w7 @ cs'" "list_all (late cfg (organization_uuid self0)) cs'"
      by (auto simp: extends_def)
    from find_user_by_email_call [OF f, of "''u''"] obtain rep0 where
      c7: "calls w7 = calls w6 @ [(Request GET (admin_url cfg [S ''users''])
                                [(''email'', ADMIN_EMAIL cfg), (''exact'', ''true'')] NoBody (token self), rep0)]"
      and emp: "\<forall>st users l. rep0 = Resp st (Some users) l \<and> \<not> truthy users \<and> \<not> http_error st \<longrightarrow> r7 = Inr JNull"
      by blast
    from c cf cw cs cs' c7 have "c \<in> set cs \<or> snd c = rep0 \<or> c \<in> set cs'"
      by auto
    then have False
    proof (elim disjE)
      assume "c \<in> set cs"
      with cs lk' show False by (auto simp: list_all_iff early_def)
    next
      assume "snd c = rep0"
      with rep emp v show False by (auto simp: http_error_def)
    next
      assume "c \<in> set cs'"
      with cs' lk show False by (auto simp: list_all_iff late_def)
    qed
    then show ?thesis ..
  qed
qed

subsection \<open>The steps of setup_keycloak_groups.py\<close>

lemma seq_stop:
  assumes "(case m of (Inl e, w1) \<Rightarrow> (Inl e, w1) | (Inr v, w1) \<Rightarrow> k v w1) = (res, w')"
  obtains (stop) e w1 where "m = (Inl e, w1)" "res = Inl e" "w' = w1"
        | (go) v w1 where "m = (Inr v, w1)" "k v w1 = (res, w')"
  using assms by (cases m) (auto split: sum.splits)

lemma script_authenticate_extends:
  "script_authenticate srv cfg w = (res, w') \<Longrightarrow> extends (early u) (prints_only u) w w'"
  by (auto simp: script_authenticate_def io_defs split: prod.splits sum.splits if_splits)

lemma groups_client_extends:
  "groups_client srv cfg tok w = (res, w') \<Longrightarrow> extends (early u) (prints_only u) w w'"
  by (auto simp: groups_client_def io_defs
      split: prod.splits sum.splits option.splits if_splits reply.splits)

lemma groups_role_extends:
  "groups_role srv cfg tok n w = (res, w') \<Longrightarrow> extends (early u) (prints_only u) w w'"
  by (auto simp: groups_role_def io_defs
      split: prod.splits sum.splits option.splits if_splits reply.splits)

lemma groups_create_roles_extends:
  "groups_create_roles srv cfg tok ns w = (res, w') \<Longrightarrow> extends (early u) (prints_only u) w w'"
proof (induction ns arbitrary: w)
  case Nil
  then show ?case by (simp add: extends_refl)
next
  case (Cons n ns)
  obtain r1 w1 where s: "groups_role srv cfg tok n w = (r1, w1)"
    by (cases "groups_role srv cfg tok n w")
  show ?case
  proof (cases r1)
    case (Inl e)
    with Cons.prems s have "w' = w1" by simp
    with groups_role_extends [OF s] show ?thesis by simp
  next
    case (Inr v)
    with Cons.prems s have "groups_create_roles srv cfg tok ns w1 = (res, w')" by simp
    from Cons.IH [OF this] groups_role_extends [OF s] show ?thesis
      by (blast intro: extends_trans)
  qed
qed

lemma groups_scope_extends:
  "groups_scope srv cfg tok w = (res, w') \<Longrightarrow> extends (early u) (prints_only u) w w'"
  by (auto simp: groups_scope_def io_defs
      split: prod.splits sum.splits option.splits if_splits reply.splits list.splits)

lemma groups_mapper_extends:
  "groups_mapper srv cfg tok sid w = (res, w') \<Longrightarrow> extends (early u) (prints_only u) w w'"
  by (auto simp: groups_mapper_def io_defs
      split: prod.splits sum.splits option.splits if_splits reply.splits list.splits)

lemma groups_mapper_custom_extends:
  "groups_mapper_custom srv cfg tok sid w = (res, w') \<Longrightarrow> extends (early u) (prints_only u) w w'"
  by (auto simp: groups_mapper_custom_def io_defs
      split: prod.splits sum.splits option.splits if_splits reply.splits list.splits)

lemma groups_assign_scope_extends:
  "groups_assign_scope srv cfg tok cid sid w = (res, w') \<Longrightarrow> extends (early u) (prints_only u) w w'"
  by (auto simp: groups_assign_scope_def io_defs
      split: prod.splits sum.splits option.splits if_splits reply.splits list.splits)

lemma groups_group_extends:
  "groups_group srv cfg tok u w = (res, w') \<Longrightarrow> extends (early u) (prints_only u) w w'"
  by (auto simp: groups_group_def io_defs
      split: prod.splits sum.splits option.splits if_splits reply.splits list.splits)

lemma groups_find_user_call:
  "groups_find_user srv cfg tok w = (res, w') \<Longrightarrow>
     \<exists>rep. calls w' = calls w @ [(Request GET (admin_url cfg [S ''users''])
                                    [(''email'', ADMIN_EMAIL cfg), (''exact'', ''true'')] NoBody (Some tok), rep)] \<and>
           (\<forall>st users l. rep = Resp st (Some users) l \<and> \<not> truthy users \<longrightarrow> res = Inl (Exit 1)) \<and>
           extends (carries_only u) (prints_only u) w w'"
  by (auto simp: groups_find_user_def io_defs
      split: prod.splits sum.splits option.splits if_splits)

lemma groups_join_group_extends:
  "groups_join_group srv cfg tok uid gid w = (res, w') \<Longrightarrow> extends (late cfg u) (prints_only u) w w'"
  by (auto simp: groups_join_group_def io_defs
      split: prod.splits sum.splits option.splits if_splits reply.splits list.splits)

lemma groups_set_attribute_extends:
  "groups_set_attribute srv cfg tok u uid w = (res, w') \<Longrightarrow> extends (late cfg u) (prints_only u) w w'"
  by (auto simp: groups_set_attribute_def io_defs tenant_values_groups_with_organization_id
      split: prod.splits sum.splits option.splits if_splits reply.splits list.splits)

lemma available_roles_extends:
  "available_roles srv cfg tok ns w = (res, w') \<Longrightarrow> extends (late cfg u) (prints_only u) w w'"
proof (induction ns arbitrary: w res w')
  case Nil
  then show ?case by (simp add: extends_refl)
next
  case (Cons n ns)
  obtain r1 w1 where s: "requests_call srv tok GET (admin_url cfg [S ''roles'', S n]) [] NoBody w = (r1, w1)"
    by (cases "requests_call srv tok GET (admin_url cfg [S ''roles'', S n]) [] NoBody w")
  then have e1: "extends (late cfg u) (prints_only u) w w1"
    by (auto simp: io_defs split: prod.splits)
  obtain r2 w2 where t: "available_roles srv cfg tok ns w1 = (r2, w2)"
    by (cases "available_roles srv cfg tok ns w1")
  note e2 = Cons.IH [OF t]
  from Cons.prems s t have "w' = w1 \<or> w' = w2"
    by (auto split: reply.splits if_splits option.splits sum.splits)
  with e1 e2 show ?case by (blast intro: extends_trans)
qed

lemma groups_assign_roles_extends:
  "groups_assign_roles srv cfg tok uid w = (res, w') \<Longrightarrow> extends (late cfg u) (prints_only u) w w'"
  by (auto simp: groups_assign_roles_def requests_call_def http_def say_def
      split: prod.splits sum.splits option.splits if_splits reply.splits
      dest!: available_roles_extends [where u = u and cfg = cfg])
     (auto simp: extends_def)

lemma groups_steps_inversion:
  "groups_steps srv cfg u tok w1 = (res, w') \<Longrightarrow>
     ((\<exists>e. res = Inl e) \<and> extends (early u) (prints_only u) w1 w')
   \<or> (\<exists>w7 r8 w8.
         groups_find_user srv cfg tok w7 = (r8, w8) \<and>
         extends (early u) (prints_only u) w1 w7 \<and>
         ((\<exists>e. r8 = Inl e \<and> res = Inl e \<and> w' = w8)
          \<or> ((\<exists>v. r8 = Inr v) \<and> extends (late cfg u) (prints_only u) w8 w')))"
  apply (unfold groups_steps_def)
  apply (erule seq_stop)
  subgoal by (rule disjI1) (auto dest!: groups_client_extends [where u = u])
  apply (erule seq_stop)
  subgoal by (rule disjI1) (auto dest!: groups_client_extends [where u = u]
      groups_create_roles_extends [where u = u] simp: extends_def)
  apply (erule seq_stop)
  subgoal by (rule disjI1) (auto dest!: groups_client_extends [where u = u]
      groups_create_roles_extends [where u = u] groups_scope_extends [where u = u] simp: extends_def)
  apply (erule seq_stop)
  subgoal by (rule disjI1) (auto dest!: groups_client_extends [where u = u]
      groups_create_roles_extends [where u = u] groups_scope_extends [where u = u]
      groups_mapper_extends [where u = u] simp: extends_def)
  apply (erule seq_stop)
  subgoal by (rule disjI1) (auto dest!: groups_client_extends [where u = u]
      groups_create_roles_extends [where u = u] groups_scope_extends [where u = u]
      groups_mapper_extends [where u = u] groups_mapper_custom_extends [where u = u] simp: extends_def)
  apply (erule seq_stop)
  subgoal by (rule disjI1) (auto dest!: groups_client_extends [where u = u]
      groups_create_roles_extends [where u = u] groups_scope_extends [where u = u]
      groups_mapper_extends [where u = u] groups_mapper_custom_extends [where u = u]
      groups_assign_scope_extends [where u = u] simp: extends_def)
  apply (erule seq_stop)
  subgoal by (rule disjI1) (auto dest!: groups_client_extends [where u = u]
      groups_create_roles_extends [where u = u] groups_scope_extends [where u = u]
      groups_mapper_extends [where u = u] groups_mapper_custom_extends [where u = u]
      groups_assign_scope_extends [where u = u] groups_group_extends simp: extends_def)
  apply (rule disjI2)
  apply (erule seq_stop)
  subgoal
    apply (intro exI conjI, assumption)
    by (auto dest!: groups_client_extends [where u = u]
      groups_create_roles_extends [where u = u] groups_scope_extends [where u = u]
      groups_mapper_extends [where u = u] groups_mapper_custom_extends [where u = u]
      groups_assign_scope_extends [where u = u] groups_group_extends simp: extends_def)
  apply (intro exI conjI, assumption)
  subgoal by (auto dest!: groups_client_extends [where u = u]
      groups_create_roles_extends [where u = u] groups_scope_extends [where u = u]
      groups_mapper_extends [where u = u] groups_mapper_custom_extends [where u = u]
      groups_assign_scope_extends [where u = u] groups_group_extends simp: extends_def)
  apply (rule disjI2)
  apply (rule conjI, blast)
  apply (erule seq_stop)
  subgoal by (auto dest!: groups_join_group_extends [where u = u and cfg = cfg])
  apply (erule seq_stop)
  subgoal by (auto dest!: groups_join_group_extends [where u = u and cfg = cfg]
      groups_set_attribute_extends [where cfg = cfg] simp: extends_def)
  apply (erule seq_stop)
  subgoal by (auto dest!: groups_join_group_extends [where u = u and cfg = cfg]
      groups_set_attribute_extends [where cfg = cfg]
      groups_assign_roles_extends [where u = u and cfg = cfg] simp: extends_def)
  by (auto dest!: groups_join_group_extends [where u = u and cfg = cfg]
      groups_set_attribute_extends [where cfg = cfg]
      groups_assign_roles_extends [where u = u and cfg = cfg]
      simp: extends_def groups_summary_def say_def say_tenant_def)

lemma groups_run:
  "\<exists>w0 w'. extends (carries_only (uuids w (drawn w))) (prints_only (uuids w (drawn w))) w0 w' \<and>
     calls w0 = calls w \<and> printed w0 = printed w \<and> drawn w0 = Suc (drawn w) \<and>
     w' = snd (setup_keycloak_groups srv cfg w)"
proof -
  let ?u = "uuids w (drawn w)"
  let ?w0 = "w\<lparr>drawn := Suc (drawn w)\<rparr>"
  let ?wl = "say_tenant Plain ''Generated Organization UUID: {SPOOLIQ_ORG_UUID}'' [?u] ?w0"
  have l: "extends (carries_only ?u) (prints_only ?u) ?w0 ?wl"
    by (simp add: extends_def say_tenant_def)
  obtain ra w1 where a: "script_authenticate srv cfg ?wl = (ra, w1)"
    by (cases "script_authenticate srv cfg ?wl")
  note ea = early_carries [OF script_authenticate_extends [OF a, of ?u]]
  show ?thesis
  proof (cases ra)
    case (Inl e)
    with a have "snd (setup_keycloak_groups srv cfg w) = w1"
      by (simp add: setup_keycloak_groups_def uuid4_def)
    with l ea show ?thesis
      by (intro exI [of _ ?w0] exI [of _ w1]) (auto intro: extends_trans)
  next
    case (Inr tok)
    obtain r w2 where s: "groups_steps srv cfg ?u tok w1 = (r, w2)"
      by (cases "groups_steps srv cfg ?u tok w1")
    with a Inr have f: "snd (setup_keycloak_groups srv cfg w) = w2"
      by (simp add: setup_keycloak_groups_def uuid4_def split: sum.splits)
    have "extends (carries_only ?u) (prints_only ?u) w1 w2"
      using groups_steps_inversion [OF s]
    proof (elim disjE conjE exE)
      assume "extends (early ?u) (prints_only ?u) w1 w2"
      then show ?thesis by (rule early_carries)
    next
      fix w7 r8 w8 e
      assume g: "groups_find_user srv cfg tok w7 = (r8, w8)"
        and e: "extends (early ?u) (prints_only ?u) w1 w7" and "w2 = w8"
      with groups_find_user_call [OF g, of ?u] early_carries [OF e]
      show ?thesis by (blast intro: extends_trans)
    next
      fix w7 r8 w8 v
      assume g: "groups_find_user srv cfg tok w7 = (r8, w8)"
        and e: "extends (early ?u) (prints_only ?u) w1 w7"
        and l: "extends (late cfg ?u) (prints_only ?u) w8 w2"
      with groups_find_user_call [OF g, of ?u] early_carries [OF e] late_carries [OF l]
      show ?thesis by (blast intro: extends_trans)
    qed
    with l ea f show ?thesis
      by (intro exI [of _ ?w0] exI [of _ w2]) (auto intro: extends_trans)
  qed
qed

lemma groups_guard:
  assumes c: "c \<in> set (drop (length (calls w)) (calls (snd (setup_keycloak_groups srv cfg w))))"
    and lk: "user_lookup cfg (fst c)"
    and rep: "snd c = Resp st (Some users) l" "\<not> truthy users"
  shows "fst (setup_keycloak_groups srv cfg w) = 1 \<and>
         (\<forall>c' \<in> set (drop (length (calls w)) (calls (snd (setup_keycloak_groups srv cfg w)))). \<not> user_write (fst c'))"
proof -
  let ?u = "uuids w (drawn w)"
  let ?w0 = "w\<lparr>drawn := Suc (drawn w)\<rparr>"
  let ?wl = "say_tenant Plain ''Generated Organization UUID: {SPOOLIQ_ORG_UUID}'' [?u] ?w0"
  have lk': "on_users (fst c)" "meth (fst c) = GET"
    using lk by (cases "fst c"; simp add: user_lookup_def on_users_def admin_url_def)+
  have cl: "calls ?wl = calls w" by (simp add: say_tenant_def)
  obtain ra w1 where a: "script_authenticate srv cfg ?wl = (ra, w1)"
    by (cases "script_authenticate srv cfg ?wl")
  from script_authenticate_extends [OF a, of ?u] cl
  obtain csa where csa: "calls w1 = calls w @ csa" "list_all (early ?u) csa"
    by (auto simp: extends_def)
  show ?thesis
  proof (cases ra)
    case (Inl e)
    with a have "snd (setup_keycloak_groups srv cfg w) = w1"
      by (simp add: setup_keycloak_groups_def uuid4_def)
    with c csa lk' have False by (auto simp: list_all_iff early_def)
    then show ?thesis ..
  next
    case (Inr tok)
    obtain r w2 where s: "groups_steps srv cfg ?u tok w1 = (r, w2)"
      by (cases "groups_steps srv cfg ?u tok w1")
    with a Inr have f: "snd (setup_keycloak_groups srv cfg w) = w2"
      and x: "fst (setup_keycloak_groups srv cfg w) = (case r of Inl e \<Rightarrow> exit_status e | Inr u \<Rightarrow> 0)"
      by (simp_all add: setup_keycloak_groups_def uuid4_def split: sum.splits)
    from groups_steps_inversion [OF s] show ?thesis
    proof (elim disjE conjE exE)
      assume "extends (early ?u) (prints_only ?u) w1 w2"
      then obtain cs where "calls w2 = calls w1 @ cs" "list_all (early ?u) cs"
        by (auto simp: extends_def)
      with c f csa lk' have False by (auto simp: list_all_iff early_def)
      then show ?thesis ..
    next
      fix w7 r8 w8 e
      assume g: "groups_find_user srv cfg tok w7 = (r8, w8)"
        and e: "extends (early ?u) (prints_only ?u) w1 w7"
        and st: "r8 = Inl e" "r = Inl e" "w2 = w8"
      from e obtain cs where cs: "calls w7 = calls w1 @ cs" "list_all (early ?u) cs"
        by (auto simp: extends_def)
      from groups_find_user_call [OF g, of ?u] obtain rep0 where
        c8: "calls w8 = calls w7 @ [(Request GET (admin_url cfg [S ''users''])
                                [(''email'', ADMIN_EMAIL cfg), (''exact'', ''true'')] NoBody (Some tok), rep0)]"
        and emp: "\<forall>st users l. rep0 = Resp st (Some users) l \<and> \<not> truthy users \<longrightarrow> r8 = Inl (Exit 1)"
        by blast
      from c f st cs csa c8 have "c \<in> set csa \<or> c \<in> set cs \<or> snd c = rep0"
        by auto
      then have "r8 = Inl (Exit 1)"
      proof (elim disjE)
        assume "c \<in> set csa"
        with csa lk' show ?thesis by (auto simp: list_all_iff early_def)
      next
        assume "c \<in> set cs"
        with cs lk' show ?thesis by (auto simp: list_all_iff early_def)
      next
        assume "snd c = rep0"
        with rep emp show ?thesis by auto
      qed
      with st x have "fst (setup_keycloak_groups srv cfg w) = 1" by auto
      moreover from f st cs csa c8
      have "\<forall>c' \<in> set (drop (length (calls w)) (calls (snd (setup_keycloak_groups srv cfg w)))). \<not> user_write (fst c')"
        by (auto simp: list_all_iff early_def user_write_def)
      ultimately show ?thesis ..
    next
      fix w7 r8 w8 v
      assume g: "groups_find_user srv cfg tok w7 = (r8, w8)"
        and e: "extends (early ?u) (prints_only ?u) w1 w7"
        and v: "r8 = Inr v"
        and l: "extends (late cfg ?u) (prints_only ?u) w8 w2"
      from e obtain cs where cs: "calls w7 = calls w1 @ cs" "list_all (early ?u) cs"
        by (auto simp: extends_def)
      from l obtain cs' where cs': "calls w2 = calls w8 @ cs'" "list_all (late cfg ?u) cs'"
        by (auto simp: extends_def)
      from groups_find_user_call [OF g, of ?u] obtain rep0 where
        c8: "calls w8 = calls w7 @ [(Request GET (admin_url cfg [S ''users''])
                                [(''email'', ADMIN_EMAIL cfg), (''exact'', ''true'')] NoBody (Some tok), rep0)]"
        and emp: "\<forall>st users l. rep0 = Resp st (Some users) l \<and> \<not> truthy users \<longrightarrow> r8 = Inl (Exit 1)"
        by blast
      from c f cs csa cs' c8 have "c \<in> set csa \<or> c \<in> set cs \<or> snd c = rep0 \<or> c \<in> set cs'"
        by auto
      then have False
      proof (elim disjE)
        assume "c \<in> set csa"
        with csa lk' show False by (auto simp: list_all_iff early_def)
      next
        assume "c \<in> set cs"
        with cs lk' show False by (auto simp: list_all_iff early_def)
      next
        assume "snd c = rep0"
        with rep emp v show False by auto
      next
        assume "c \<in> set cs'"
        with cs' lk show False by (auto simp: list_all_iff late_def)
      qed
      then show ?thesis ..
    qed
  qed
qed

section \<open>A resource that is found is not created (claim C2)\<close>

text \<open>
  Claim C2. For each kind of resource, when the lookup finds a match, the operation gives
  back what it found and the lookup is its only request, so no creation request is sent.
  The client, the realm role, the client scope and the protocol mapper are those of
  \<^verbatim>\<open>setup_keycloak_multitenant.py\<close>; the group is that of \<^verbatim>\<open>setup_keycloak_groups.py\<close>.
  A match is: a list whose first element has an \<^verbatim>\<open>id\<close> (client, group), an answer with
  status 200 (role), a list in which the loop of the source reaches a scope or a mapper
  of the wanted name (\<open>find_scope\<close>, \<open>find_mapper\<close>).
\<close>

theorem found_means_no_creation:
  "(srv (remote w) (Request GET (admin_url cfg [S ''clients'']) [(''clientId'', CLIENT_ID)] NoBody (token self))
       = (Resp st (Some (JArr (JObj c # rest))) l, r') \<and> \<not> (400 \<le> st \<and> st < 600) \<and> map_of c ''id'' = Some i
     \<longrightarrow> fst (create_client srv cfg self w) = Inr i \<and>
         calls (snd (create_client srv cfg self w))
           = calls w @ [(Request GET (admin_url cfg [S ''clients'']) [(''clientId'', CLIENT_ID)] NoBody (token self),
                         Resp st (Some (JArr (JObj c # rest))) l)])
   \<and>
   (srv (remote w) (Request GET (admin_url cfg [S ''roles'', S role_name]) [] NoBody (token self))
       = (Resp 200 b l, r')
     \<longrightarrow> fst (create_role srv cfg self role_name (ok, w)) = ok \<and>
         calls (snd (create_role srv cfg self role_name (ok, w)))
           = calls w @ [(Request GET (admin_url cfg [S ''roles'', S role_name]) [] NoBody (token self), Resp 200 b l)])
   \<and>
   (srv (remote w) (Request GET (admin_url cfg [S ''client-scopes'']) [] NoBody (token self))
       = (Resp st (Some (JArr scopes)) l, r') \<and> \<not> (400 \<le> st \<and> st < 600) \<and> find_scope scopes = Inr (Some i)
     \<longrightarrow> fst (create_client_scope srv cfg self w) = Inr i \<and>
         calls (snd (create_client_scope srv cfg self w))
           = calls w @ [(Request GET (admin_url cfg [S ''client-scopes'']) [] NoBody (token self),
                         Resp st (Some (JArr scopes)) l)])
   \<and>
   (srv (remote w) (Request GET (mappers_url cfg scope_id) [] NoBody (token self))
       = (Resp st (Some (JArr mappers)) l, r') \<and> \<not> (400 \<le> st \<and> st < 600) \<and> find_mapper mappers = Inr True
     \<longrightarrow> fst (create_protocol_mapper srv cfg self scope_id w) = True \<and>
         calls (snd (create_protocol_mapper srv cfg self scope_id w))
           = calls w @ [(Request GET (mappers_url cfg scope_id) [] NoBody (token self),
                         Resp st (Some (JArr mappers)) l)])
   \<and>
   (srv (remote w) (Request GET (admin_url cfg [S ''groups'']) [(''search'', ''spooliq-platform'')] NoBody (Some admin_token))
       = (Resp st (Some (JArr (JObj g # rest))) l, r') \<and> map_of g ''id'' = Some i
     \<longrightarrow> fst (groups_group srv cfg admin_token org_uuid w) = Inr i \<and>
         calls (snd (groups_group srv cfg admin_token org_uuid w))
           = calls w @ [(Request GET (admin_url cfg [S ''groups'']) [(''search'', ''spooliq-platform'')] NoBody (Some admin_token),
                         Resp st (Some (JArr (JObj g # rest))) l)])"
  by (simp add: create_client_def create_role_def create_client_scope_def create_protocol_mapper_def
      groups_group_def session_def requests_call_def http_def checked_json_def json_of_def bindE_def
      http_error_def first_id_def lookup_scope_def lookup_mapper_def say_def)

text \<open>The theorem at a service that answers each lookup with one match.\<close>

theorem found_means_no_creation_witness:
  "fst (create_client replay example_config \<lparr>token = None, organization_uuid = ''u''\<rparr>
         (start_world [Resp 200 (Some (JArr [JObj [(''id'', JStr ''x1'')]])) None])) = Inr (JStr ''x1'')
   \<and> fst (create_role replay example_config \<lparr>token = None, organization_uuid = ''u''\<rparr> ''User''
         (True, start_world [Resp 200 None None])) = True
   \<and> fst (create_client_scope replay example_config \<lparr>token = None, organization_uuid = ''u''\<rparr>
         (start_world [Resp 200 (Some (JArr [JObj [(''id'', JStr ''x1''), (''name'', JStr ''organization'')]])) None]))
       = Inr (JStr ''x1'')
   \<and> fst (create_protocol_mapper replay example_config \<lparr>token = None, organization_uuid = ''u''\<rparr> (JStr ''s1'')
         (start_world [Resp 200 (Some (JArr [JObj [(''name'', JStr ''organization-id-mapper'')]])) None])) = True
   \<and> fst (groups_group replay example_config (JStr ''t0'') ''u''
         (start_world [Resp 200 (Some (JArr [JObj [(''id'', JStr ''x1'')]])) None])) = Inr (JStr ''x1'')"
  using
    found_means_no_creation [where srv = replay and cfg = example_config
      and self = "\<lparr>token = None, organization_uuid = ''u''\<rparr>"
      and w = "start_world [Resp 200 (Some (JArr [JObj [(''id'', JStr ''x1'')]])) None]"
      and st = 200 and c = "[(''id'', JStr ''x1'')]" and g = "[(''id'', JStr ''x1'')]" and rest = "[]"
      and l = None and r' = "[]" and i = "JStr ''x1''" and admin_token = "JStr ''t0''" and org_uuid = "''u''"]
    found_means_no_creation [where srv = replay and cfg = example_config
      and self = "\<lparr>token = None, organization_uuid = ''u''\<rparr>" and role_name = "''User''" and ok = True
      and w = "start_world [Resp 200 None None]" and b = None and l = None and r' = "[]"]
    found_means_no_creation [where srv = replay and cfg = example_config
      and self = "\<lparr>token = None, organization_uuid = ''u''\<rparr>"
      and w = "start_world [Resp 200 (Some (JArr [JObj [(''id'', JStr ''x1''), (''name'', JStr ''organization'')]])) None]"
      and st = 200 and scopes = "[JObj [(''id'', JStr ''x1''), (''name'', JStr ''organization'')]]"
      and l = None and r' = "[]" and i = "JStr ''x1''"]
    found_means_no_creation [where srv = replay and cfg = example_config
      and self = "\<lparr>token = None, organization_uuid = ''u''\<rparr>" and scope_id = "JStr ''s1''"
      and w = "start_world [Resp 200 (Some (JArr [JObj [(''name'', JStr ''organization-id-mapper'')]])) None]"
      and st = 200 and mappers = "[JObj [(''name'', JStr ''organization-id-mapper'')]]"
      and l = None and r' = "[]"]
  by (simp add: replay_def start_world_def)

section \<open>A failed authentication (claim C5)\<close>

text \<open>
  Claim C5, as amended. When the token request meets a network error or is answered with
  a status from 400 to 599, the run sends no other request (the token request is sent
  once and not again) and the process leaves with status 1. This holds for
  \<^verbatim>\<open>setup_keycloak_multitenant.py\<close> and for \<^verbatim>\<open>setup_keycloak_groups.py\<close>.
\<close>

theorem failed_authentication_stops:
  assumes "srv (remote w) (Request POST (token_url cfg) [] (token_data cfg) None) = (r, r')"
    and "r = NetErr \<or> (\<exists>st b l. r = Resp st b l \<and> 400 \<le> st \<and> st < 600)"
  shows "fst (main srv cfg w) = 1 \<and>
         calls (snd (main srv cfg w))
           = calls w @ [(Request POST (token_url cfg) [] (token_data cfg) None, r)] \<and>
         fst (setup_keycloak_groups srv cfg w) = 1 \<and>
         calls (snd (setup_keycloak_groups srv cfg w))
           = calls w @ [(Request POST (token_url cfg) [] (token_data cfg) None, r)]"
  using assms
  by (auto simp: main_def run_def KeycloakSetup_init_def uuid4_def get_admin_token_def session_def http_def
      checked_json_def bindE_def http_error_def is_RequestException_def say_def say_tenant_def
      setup_keycloak_groups_def script_authenticate_def)

text \<open>The theorem at a service that answers the token request with 401.\<close>

theorem failed_authentication_stops_witness:
  "fst (main replay example_config (start_world [Resp 401 None None])) = 1 \<and>
   calls (snd (main replay example_config (start_world [Resp 401 None None])))
     = [(Request POST (token_url example_config) [] (token_data example_config) None, Resp 401 None None)] \<and>
   fst (setup_keycloak_groups replay example_config (start_world [Resp 401 None None])) = 1"
  using failed_authentication_stops [where srv = replay and w = "start_world [Resp 401 None None]"
      and cfg = example_config and r = "Resp 401 None None" and r' = "[]"]
  by (simp add: replay_def start_world_def)

text \<open>Claim C5 as it was stated fails for a status that is neither 2xx nor an error for
  \<^verbatim>\<open>raise_for_status\<close>: a token request answered with 300 and a body that holds an
  \<^verbatim>\<open>access_token\<close> counts as authenticated, twelve more requests follow and the process
  leaves with status 0.\<close>

theorem redirect_token_counterexample:
  "fst (main replay example_config (start_world (provisioned_replies 300 roles_exist 204))) = 0 \<and>
   length (calls (snd (main replay example_config (start_world (provisioned_replies 300 roles_exist 204))))) = 13"
  by code_simp

section \<open>Assigning the scope to the client (claim C7)\<close>

text \<open>
  Claim C7, as amended. In \<^verbatim>\<open>setup_keycloak_multitenant.py\<close> the step that assigns the scope
  to the client succeeds exactly when the status of the answer is outside 400 to 599, so
  204 is a success and 404 is a failure of the step. In \<^verbatim>\<open>setup_keycloak_groups.py\<close> the
  script goes on after every status; it prints a success line for 204 and 404 and a
  warning line for any other status.
\<close>

theorem assign_scope_status:
  "(srv (remote w) (Request PUT (admin_url cfg [S ''clients'', V client_uuid, S ''default-client-scopes'', V scope_id])
        [] NoBody (token self)) = (Resp st b l, r')
     \<longrightarrow> fst (assign_scope_to_client srv cfg self client_uuid scope_id w) = (\<not> (400 \<le> st \<and> st < 600)))
   \<and>
   (srv (remote w) (Request PUT (admin_url cfg [S ''clients'', V client_uuid, S ''default-client-scopes'', V scope_id])
        [] NoBody (Some admin_token)) = (Resp st b l, r')
     \<longrightarrow> fst (groups_assign_scope srv cfg admin_token client_uuid scope_id w) = Inr () \<and>
         map line_mark (printed (snd (groups_assign_scope srv cfg admin_token client_uuid scope_id w)))
           = map line_mark (printed w) @ [if st = 204 \<or> st = 404 then Success else Warning])"
  by (simp add: assign_scope_to_client_def groups_assign_scope_def session_def requests_call_def
      http_def checked_def http_error_def say_def)

text \<open>The theorem at a service that answers 404.\<close>

theorem assign_scope_status_witness:
  "fst (assign_scope_to_client replay example_config \<lparr>token = None, organization_uuid = ''u''\<rparr>
          (JStr ''c1'') (JStr ''s1'') (start_world [Resp 404 None None])) = False
   \<and> fst (groups_assign_scope replay example_config (JStr ''t0'') (JStr ''c1'') (JStr ''s1'')
          (start_world [Resp 404 None None])) = Inr ()"
  using assign_scope_status [where srv = replay and w = "start_world [Resp 404 None None]"
      and cfg = example_config and client_uuid = "JStr ''c1''" and scope_id = "JStr ''s1''"
      and self = "\<lparr>token = None, organization_uuid = ''u''\<rparr>" and st = 404 and b = None and l = None
      and r' = "[]" and admin_token = "JStr ''t0''"]
  by (simp add: replay_def start_world_def)

text \<open>Claim C7 as it was stated fails: on a service where everything exists and the
  assignment is answered with 404, \<^verbatim>\<open>setup_keycloak_multitenant.py\<close> leaves with status 1
  after its eighth request, the assignment; the user is never looked up.\<close>

theorem assign_scope_404_counterexample:
  "fst (main replay example_config (start_world (provisioned_replies 200 roles_exist 404))) = 1 \<and>
   length (calls (snd (main replay example_config (start_world (provisioned_replies 200 roles_exist 404))))) = 8"
  by code_simp

section \<open>The update of the user attribute (claim C9)\<close>

text \<open>
  Claim C9. The step reads the user, and what it writes back is what it read with one
  change: \<^verbatim>\<open>attributes.organization_id\<close> is the one-element list of the organization
  identifier. Every other field of the user and every other key of \<^verbatim>\<open>attributes\<close> has the
  value that was read. Here \<open>d\<close> is the user that the service gives, with the attributes
  \<open>a\<close> (no attributes when the user has no such field), and \<open>d'\<close> and \<open>a'\<close> are the user
  and the attributes of the \<^verbatim>\<open>PUT\<close> request. The first part is \<^verbatim>\<open>set_user_attribute\<close> of
  \<^verbatim>\<open>setup_keycloak_multitenant.py\<close>, the second is lines 291 to 301 of
  \<^verbatim>\<open>setup_keycloak_groups.py\<close>.
\<close>

theorem user_update_frame:
  assumes "(map_of d ''attributes'' = None \<and> a = []) \<or> map_of d ''attributes'' = Some (JObj a)"
  shows
  "(srv (remote w) (Request GET (admin_url cfg [S ''users'', V user_id]) [] NoBody (token self))
       = (Resp st (Some (JObj d)) l, r') \<and> \<not> (400 \<le> st \<and> st < 600)
     \<longrightarrow> (\<exists>d' a'. map fst (calls (snd (set_user_attribute srv cfg self user_id w)))
             = map fst (calls w) @
               [Request GET (admin_url cfg [S ''users'', V user_id]) [] NoBody (token self),
                Request PUT (admin_url cfg [S ''users'', V user_id]) [] (Json (JObj d')) (token self)] \<and>
           (\<forall>k. k \<noteq> ''attributes'' \<longrightarrow> map_of d' k = map_of d k) \<and>
           map_of d' ''attributes'' = Some (JObj a') \<and>
           (\<forall>k. k \<noteq> ''organization_id'' \<longrightarrow> map_of a' k = map_of a k) \<and>
           map_of a' ''organization_id'' = Some (JArr [JStr (organization_uuid self)])))
   \<and>
   (srv (remote w) (Request GET (admin_url cfg [S ''users'', V user_id]) [] NoBody (Some admin_token))
       = (Resp st (Some (JObj d)) l, r')
     \<longrightarrow> (\<exists>d' a'. map fst (calls (snd (groups_set_attribute srv cfg admin_token org_uuid user_id w)))
             = map fst (calls w) @
               [Request GET (admin_url cfg [S ''users'', V user_id]) [] NoBody (Some admin_token),
                Request PUT (admin_url cfg [S ''users'', V user_id]) [] (Json (JObj d')) (Some admin_token)] \<and>
           (\<forall>k. k \<noteq> ''attributes'' \<longrightarrow> map_of d' k = map_of d k) \<and>
           map_of d' ''attributes'' = Some (JObj a') \<and>
           (\<forall>k. k \<noteq> ''organization_id'' \<longrightarrow> map_of a' k = map_of a k) \<and>
           map_of a' ''organization_id'' = Some (JArr [JStr org_uuid])))"
  using assms
  by (auto simp: set_user_attribute_def groups_set_attribute_def session_def requests_call_def http_def
      checked_json_def checked_def json_of_def bindE_def http_error_def with_organization_id_def
      groups_with_organization_id_def say_def say_tenant_def map_of_dict_set
      split: prod.splits sum.splits reply.splits)

text \<open>The theorem at a user that has a \<^verbatim>\<open>locale\<close> attribute and an older
  organization identifier.\<close>

theorem user_update_frame_witness:
  "\<exists>d' a'. map fst (calls (snd (set_user_attribute replay example_config
                \<lparr>token = None, organization_uuid = ''u''\<rparr> (JStr ''u1'')
                (start_world [Resp 200 (Some user_rep) None, Resp 204 None None]))))
             = [Request GET (admin_url example_config [S ''users'', V (JStr ''u1'')]) [] NoBody None,
                Request PUT (admin_url example_config [S ''users'', V (JStr ''u1'')]) [] (Json (JObj d')) None] \<and>
           map_of d' ''email'' = Some (JStr ''admin@example.org'') \<and>
           map_of d' ''attributes'' = Some (JObj a') \<and>
           map_of a' ''locale'' = Some (JArr [JStr ''pt'']) \<and>
           map_of a' ''organization_id'' = Some (JArr [JStr ''u''])"
proof -
  let ?a = "[(''locale'', JArr [JStr ''pt'']), (''organization_id'', JArr [JStr ''old''])]"
  let ?d = "[(''id'', JStr ''u1''), (''email'', JStr ''admin@example.org''), (''attributes'', JObj ?a)]"
  let ?w = "start_world [Resp 200 (Some user_rep) None, Resp 204 None None]"
  let ?self = "\<lparr>token = None, organization_uuid = ''u''\<rparr>"
  have h: "(map_of ?d ''attributes'' = None \<and> ?a = []) \<or> map_of ?d ''attributes'' = Some (JObj ?a)"
    by simp
  have g: "replay (remote ?w) (Request GET (admin_url example_config [S ''users'', V (JStr ''u1'')]) [] NoBody (token ?self))
             = (Resp 200 (Some (JObj ?d)) None, [Resp 204 None None]) \<and> \<not> (400 \<le> (200::nat) \<and> (200::nat) < 600)"
    by (simp add: replay_def start_world_def user_rep_def)
  from user_update_frame [OF h, where srv = replay and cfg = example_config and self = ?self
        and user_id = "JStr ''u1''" and w = ?w and st = 200 and l = None
        and r' = "[Resp 204 None None]", THEN conjunct1, THEN mp, OF g]
  obtain d' a' where
      c: "map fst (calls (snd (set_user_attribute replay example_config ?self (JStr ''u1'') ?w)))
            = map fst (calls ?w) @
              [Request GET (admin_url example_config [S ''users'', V (JStr ''u1'')]) [] NoBody (token ?self),
               Request PUT (admin_url example_config [S ''users'', V (JStr ''u1'')]) [] (Json (JObj d')) (token ?self)]"
    and f: "\<forall>k. k \<noteq> ''attributes'' \<longrightarrow> map_of d' k = map_of ?d k"
    and t: "map_of d' ''attributes'' = Some (JObj a')"
    and fa: "\<forall>k. k \<noteq> ''organization_id'' \<longrightarrow> map_of a' k = map_of ?a k"
    and o: "map_of a' ''organization_id'' = Some (JArr [JStr (organization_uuid ?self)])"
    by blast
  have c': "map fst (calls (snd (set_user_attribute replay example_config ?self (JStr ''u1'') ?w)))
            = [Request GET (admin_url example_config [S ''users'', V (JStr ''u1'')]) [] NoBody None,
               Request PUT (admin_url example_config [S ''users'', V (JStr ''u1'')]) [] (Json (JObj d')) None]"
    using c by (simp add: start_world_def)
  have e: "map_of d' ''email'' = Some (JStr ''admin@example.org'')"
    using f [rule_format, of "''email''"] by simp
  have lo: "map_of a' ''locale'' = Some (JArr [JStr ''pt''])"
    using fa [rule_format, of "''locale''"] by simp
  have o': "map_of a' ''organization_id'' = Some (JArr [JStr ''u''])"
    using o by simp
  show ?thesis
    by (intro exI [of _ d'] exI [of _ a'] conjI c' e t lo o')
qed

section \<open>The missing user (claim C6)\<close>

text \<open>
  Claim C6. Take a run of \<^verbatim>\<open>setup_keycloak_multitenant.py\<close> in which the lookup of the
  user by e-mail (with \<^verbatim>\<open>exact=true\<close>) was answered, without an error status, by a
  value without a user in it (an empty list). Then the process leaves with status 1,
  and no request of the run changes anything under \<^verbatim>\<open>/users\<close>: no update of a user, no
  assignment of role mappings, no creation of a user. The same holds for
  \<^verbatim>\<open>setup_keycloak_groups.py\<close>. Here \<open>c\<close> is the call of the lookup, with its reply.
\<close>

theorem missing_user_guard:
  "(c \<in> set (drop (length (calls w)) (calls (snd (main srv cfg w)))) \<and> user_lookup cfg (fst c) \<and>
    snd c = Resp st (Some users) l \<and> \<not> truthy users \<and> \<not> (400 \<le> st \<and> st < 600)
      \<longrightarrow> fst (main srv cfg w) = 1 \<and>
          (\<forall>c' \<in> set (drop (length (calls w)) (calls (snd (main srv cfg w)))). \<not> user_write (fst c')))
   \<and>
   (c \<in> set (drop (length (calls w)) (calls (snd (setup_keycloak_groups srv cfg w)))) \<and> user_lookup cfg (fst c) \<and>
    snd c = Resp st (Some users) l \<and> \<not> truthy users
      \<longrightarrow> fst (setup_keycloak_groups srv cfg w) = 1 \<and>
          (\<forall>c' \<in> set (drop (length (calls w)) (calls (snd (setup_keycloak_groups srv cfg w)))).
              \<not> user_write (fst c')))"
  using main_guard [of c w srv cfg st users l] groups_guard [of c w srv cfg st users l]
  by blast

text \<open>The theorem at a service on which everything exists but the user.\<close>

theorem missing_user_guard_witness:
  "fst (main replay example_config (start_world no_user_replies)) = 1 \<and>
   filter (\<lambda>c'. user_write (fst c'))
     (calls (snd (main replay example_config (start_world no_user_replies)))) = [] \<and>
   fst (setup_keycloak_groups replay example_config
          (start_world (groups_replies four_roles_exist (Resp 200 (Some (JArr [])) None)))) = 1"
proof -
  let ?c = "(lookup_request (Some (JStr ''t0'')), Resp 200 (Some (JArr [])) None)"
  let ?w = "start_world no_user_replies"
  let ?g = "start_world (groups_replies four_roles_exist (Resp 200 (Some (JArr [])) None))"
  have h: "?c \<in> set (drop (length (calls ?w)) (calls (snd (main replay example_config ?w)))) \<and>
           user_lookup example_config (fst ?c) \<and>
           snd ?c = Resp 200 (Some (JArr [])) None \<and> \<not> truthy (JArr []) \<and> \<not> (400 \<le> (200::nat) \<and> (200::nat) < 600)"
    by code_simp
  have k: "?c \<in> set (drop (length (calls ?g)) (calls (snd (setup_keycloak_groups replay example_config ?g)))) \<and>
           user_lookup example_config (fst ?c) \<and>
           snd ?c = Resp 200 (Some (JArr [])) None \<and> \<not> truthy (JArr [])"
    by code_simp
  have z: "calls ?w = []" by (simp add: start_world_def)
  from missing_user_guard [where c = ?c and w = ?w and srv = replay and cfg = example_config
      and st = 200 and users = "JArr []" and l = None, THEN conjunct1, THEN mp, OF h]
    missing_user_guard [where c = ?c and w = ?g and srv = replay and cfg = example_config
      and st = 200 and users = "JArr []" and l = None, THEN conjunct2, THEN mp, OF k] z
  show ?thesis by (simp add: filter_empty_conv)
qed

section \<open>One organization identifier for each run (claim C8)\<close>

text \<open>
  Claim C8. In \<^verbatim>\<open>setup_keycloak_multitenant.py\<close> the identifier is drawn when the object is
  built, before any request is sent, and in the whole run exactly one identifier is drawn.
  Every request of the run that carries an \<^verbatim>\<open>attributes.organization_id\<close> carries that
  identifier, and every printed line that shows an organization identifier, the closing
  summary among them, shows that identifier. The same holds for
  \<^verbatim>\<open>setup_keycloak_groups.py\<close>, which draws the identifier at its line 21 and
  also puts it into the attributes of the group.
\<close>

theorem tenant_identifier_once:
  "organization_uuid (fst (KeycloakSetup_init w)) = uuids w (drawn w) \<and>
   calls (snd (KeycloakSetup_init w)) = calls w \<and>
   drawn (snd (main srv cfg w)) = Suc (drawn w) \<and>
   (\<exists>cs ls. calls (snd (main srv cfg w)) = calls w @ cs \<and>
            printed (snd (main srv cfg w)) = printed w @ ls \<and>
            list_all (carries_only (uuids w (drawn w))) cs \<and>
            list_all (prints_only (uuids w (drawn w))) ls) \<and>
   drawn (snd (setup_keycloak_groups srv cfg w)) = Suc (drawn w) \<and>
   (\<exists>cs ls. calls (snd (setup_keycloak_groups srv cfg w)) = calls w @ cs \<and>
            printed (snd (setup_keycloak_groups srv cfg w)) = printed w @ ls \<and>
            list_all (carries_only (uuids w (drawn w))) cs \<and>
            list_all (prints_only (uuids w (drawn w))) ls)"
proof -
  let ?u = "uuids w (drawn w)"
  have init: "organization_uuid (fst (KeycloakSetup_init w)) = ?u \<and> calls (snd (KeycloakSetup_init w)) = calls w"
    by (simp add: KeycloakSetup_init_def uuid4_def)
  obtain self0 w0 res w' where r: "run srv cfg self0 w0 = (res, w')"
    and w0: "calls w0 = calls w" "printed w0 = printed w" "drawn w0 = Suc (drawn w)"
      "organization_uuid self0 = ?u"
    and fin: "calls (snd (main srv cfg w)) = calls w'" "drawn (snd (main srv cfg w)) = drawn w'"
    and pr: "\<exists>ls. printed (snd (main srv cfg w)) = printed w' @ ls \<and> list_all (\<lambda>l. line_tenant l = []) ls"
    using main_run [of srv cfg w] by blast
  from run_extends [OF r] w0
  obtain cs ls where e: "calls w' = calls w @ cs" "printed w' = printed w @ ls"
      "list_all (carries_only ?u) cs" "list_all (prints_only ?u) ls" "drawn w' = Suc (drawn w)"
    by (auto simp: extends_def)
  from pr obtain ls' where ls': "printed (snd (main srv cfg w)) = printed w' @ ls'"
      "list_all (\<lambda>l. line_tenant l = []) ls'"
    by blast
  then have "list_all (prints_only ?u) ls'"
    by (simp add: list_all_iff prints_only_def)
  with e ls' have m: "\<exists>cs ls. calls (snd (main srv cfg w)) = calls w @ cs \<and>
            printed (snd (main srv cfg w)) = printed w @ ls \<and>
            list_all (carries_only ?u) cs \<and> list_all (prints_only ?u) ls"
    using fin by (intro exI [of _ cs] exI [of _ "ls @ ls'"]) simp
  from e fin have d: "drawn (snd (main srv cfg w)) = Suc (drawn w)" by simp
  obtain g0 g' where g: "extends (carries_only ?u) (prints_only ?u) g0 g'"
      "calls g0 = calls w" "printed g0 = printed w" "drawn g0 = Suc (drawn w)"
      "g' = snd (setup_keycloak_groups srv cfg w)"
    using groups_run [of w srv cfg] by blast
  then have gd: "drawn (snd (setup_keycloak_groups srv cfg w)) = Suc (drawn w)"
    and gm: "\<exists>cs ls. calls (snd (setup_keycloak_groups srv cfg w)) = calls w @ cs \<and>
            printed (snd (setup_keycloak_groups srv cfg w)) = printed w @ ls \<and>
            list_all (carries_only ?u) cs \<and> list_all (prints_only ?u) ls"
    by (auto simp: extends_def)
  from init d m gd gm show ?thesis by blast
qed

end
